theory Spec2Isabelle
  imports Complex_Main
begin

section \<open>Clock-of-day strings\<close>

text \<open>
  Both services read a time with \<^verbatim>\<open>timeStr.split(':').map(Number)\<close> and keep the first
  two numbers. \<open>splitOn\<close> is JavaScript's \<^verbatim>\<open>split\<close> for a one-character separator.
  \<open>Number_str\<close> follows \<^verbatim>\<open>Number\<close> on plain decimal numerals; \<open>None\<close> stands for every
  other text (JavaScript yields \<^verbatim>\<open>NaN\<close> or reads another numeral form there, which is
  not followed here).
\<close>

fun splitOn :: "char \<Rightarrow> string \<Rightarrow> string list" where
  "splitOn c [] = [[]]"
| "splitOn c (x # xs) =
     (if x = c then [] # splitOn c xs
      else (case splitOn c xs of [] \<Rightarrow> [[x]] | w # ws \<Rightarrow> (x # w) # ws))"

definition is_digit :: "char \<Rightarrow> bool" where
  "is_digit ch = (48 \<le> (of_char ch :: nat) \<and> (of_char ch :: nat) \<le> 57)"

definition digit_val :: "char \<Rightarrow> int" where
  "digit_val ch = int (of_char ch) - 48"

fun decimal :: "int \<Rightarrow> string \<Rightarrow> int" where
  "decimal acc [] = acc"
| "decimal acc (ch # cs) = decimal (acc * 10 + digit_val ch) cs"

definition Number_str :: "string \<Rightarrow> int option" where
  "Number_str s = (if s \<noteq> [] \<and> list_all is_digit s then Some (decimal 0 s) else None)"

text \<open>The arrow function \<^verbatim>\<open>timeToMinutes\<close> inside \<^verbatim>\<open>timeRangesOverlap\<close>.\<close>

definition timeToMinutes :: "string \<Rightarrow> int option" where
  "timeToMinutes timeStr =
     (case map Number_str (splitOn CHR '':'' timeStr) of
        Some hours # Some minutes # _ \<Rightarrow> Some (hours * 60 + minutes)
      | _ \<Rightarrow> None)"

text \<open>\<^verbatim>\<open>timeRangesOverlap\<close> of shiftOverlapValidationService.js.\<close>

definition timeRangesOverlap :: "string \<Rightarrow> string \<Rightarrow> string \<Rightarrow> string \<Rightarrow> bool option" where
  "timeRangesOverlap start1 end1 start2 end2 =
     (case (timeToMinutes start1, timeToMinutes end1, timeToMinutes start2, timeToMinutes end2) of
        (Some start1Min, Some end1Min, Some start2Min, Some end2Min) \<Rightarrow>
          (let end1Adjusted = (if end1Min < start1Min then end1Min + 24 * 60 else end1Min);
               end2Adjusted = (if end2Min < start2Min then end2Min + 24 * 60 else end2Min)
           in Some (start1Min < end2Adjusted \<and> start2Min < end1Adjusted))
      | _ \<Rightarrow> None)"

text \<open>
  \<^verbatim>\<open>calculateHours\<close> of overtimeCalculationService.js. The quotient is kept as an exact
  rational; JavaScript returns the double nearest to it.
\<close>

definition calculateHours :: "string \<Rightarrow> string \<Rightarrow> rat option" where
  "calculateHours startTime endTime =
     (case (map Number_str (splitOn CHR '':'' startTime),
            map Number_str (splitOn CHR '':'' endTime)) of
        (Some startHour # Some startMin # _, Some endHour # Some endMin # _) \<Rightarrow>
          (let startMinutes = startHour * 60 + startMin;
               endMinutes = endHour * 60 + endMin;
               diffMinutes = endMinutes - startMinutes;
               diffMinutes' = (if diffMinutes < 0 then diffMinutes + 24 * 60 else diffMinutes)
           in Some (of_int diffMinutes' / 60))
      | _ \<Rightarrow> None)"

text \<open>
  A valid \<^verbatim>\<open>HH:MM\<close> text: two digits, a colon, two digits, the hour below 24 and the minute
  below 60. \<open>minutes_since_midnight\<close> reads such a text by position, as the specification
  words it, independently of the parsing above.
\<close>

definition valid_time :: "string \<Rightarrow> bool" where
  "valid_time s =
     (case s of
        [h1, h0, c, m1, m0] \<Rightarrow>
          is_digit h1 \<and> is_digit h0 \<and> c = CHR '':'' \<and> is_digit m1 \<and> is_digit m0 \<and>
          digit_val h1 * 10 + digit_val h0 < 24 \<and> digit_val m1 * 10 + digit_val m0 < 60
      | _ \<Rightarrow> False)"

definition minutes_since_midnight :: "string \<Rightarrow> int" where
  "minutes_since_midnight s =
     (case s of
        [h1, h0, c, m1, m0] \<Rightarrow>
          (digit_val h1 * 10 + digit_val h0) * 60 + (digit_val m1 * 10 + digit_val m0)
      | _ \<Rightarrow> 0)"

definition adjusted_end :: "int \<Rightarrow> int \<Rightarrow> int" where
  "adjusted_end startMin endMin = (if endMin < startMin then endMin + 1440 else endMin)"

definition hoursWorked_spec :: "string \<Rightarrow> string \<Rightarrow> rat" where
  "hoursWorked_spec startTime endTime =
     of_int (adjusted_end (minutes_since_midnight startTime) (minutes_since_midnight endTime)
             - minutes_since_midnight startTime) / 60"

section \<open>Identifiers, instants and the calendar\<close>

text \<open>
  An ObjectId is a natural number. A \<^verbatim>\<open>Date\<close> is its count of milliseconds since
  1970-01-01T00:00Z. What the handlers read from outside the database is gathered in
  \<open>env\<close>: the clock (\<^verbatim>\<open>new Date()\<close>), the server's time zone, and which database write
  of the running handler, counted from 1 in program order, is rejected by the storage layer
  (\<open>None\<close>: every write succeeds).

  The time zone is ECMAScript's \<^verbatim>\<open>LocalTZA(t, isUTC)\<close>: the offset in milliseconds of local
  time from UTC, read at the UTC instant \<open>t\<close> when \<open>isUTC\<close> holds and at the local time
  \<open>t\<close> otherwise, so that a zone with daylight-saving changes is a function that is not
  constant. \<^verbatim>\<open>LocalTime(t)\<close> is \<open>localTime\<close> and \<^verbatim>\<open>UTC(t)\<close> is \<open>utcOf\<close>.
\<close>

type_synonym oid = nat
type_synonym instant = int

record env =
  now :: instant
  localTZA :: "bool \<Rightarrow> int \<Rightarrow> int"
  failingWrite :: "nat option"

definition msPerDay :: int where
  "msPerDay = 86400000"

definition localTime :: "env \<Rightarrow> instant \<Rightarrow> int" where
  "localTime e t = t + localTZA e True t"

definition utcOf :: "env \<Rightarrow> int \<Rightarrow> instant" where
  "utcOf e t = t - localTZA e False t"

definition localDay :: "env \<Rightarrow> instant \<Rightarrow> int" where
  "localDay e d = localTime e d div msPerDay"

text \<open>\<^verbatim>\<open>Date.prototype.getDay\<close>: 0 is Sunday; 1970-01-01 was a Thursday.\<close>

definition getDay :: "env \<Rightarrow> instant \<Rightarrow> int" where
  "getDay e d = (localDay e d + 4) mod 7"

text \<open>Year, month (1 to 12) and day of month of a day count, proleptic Gregorian calendar.\<close>

definition civil :: "int \<Rightarrow> int \<times> int \<times> int" where
  "civil days =
     (let z = days + 719468;
          era = z div 146097;
          doe = z mod 146097;
          yoe = (doe - doe div 1460 + doe div 36524 - doe div 146096) div 365;
          y = yoe + era * 400;
          doy = doe - (365 * yoe + yoe div 4 - yoe div 100);
          mp = (5 * doy + 2) div 153;
          dd = doy - (153 * mp + 2) div 5 + 1;
          m = (if mp < 10 then mp + 3 else mp - 9)
      in (if m \<le> 2 then y + 1 else y, m, dd))"

definition getMonth :: "env \<Rightarrow> instant \<Rightarrow> int" where
  "getMonth e d = fst (snd (civil (localDay e d))) - 1"

definition getFullYear :: "env \<Rightarrow> instant \<Rightarrow> int" where
  "getFullYear e d = fst (civil (localDay e d))"

definition digit_char :: "int \<Rightarrow> char" where
  "digit_char n = ''0123456789'' ! nat (n mod 10)"

text \<open>
  \<^verbatim>\<open>date.toISOString().split('T')[0]\<close> for years 0 to 9999 (other years are written with
  a sign and six digits by JavaScript, which is not followed here).
\<close>

definition isoDate :: "instant \<Rightarrow> string" where
  "isoDate d =
     (case civil (d div msPerDay) of
        (y, m, dd) \<Rightarrow>
          [digit_char (y div 1000), digit_char (y div 100), digit_char (y div 10), digit_char y]
          @ ''-'' @ [digit_char (m div 10), digit_char m]
          @ ''-'' @ [digit_char (dd div 10), digit_char dd])"

text \<open>
  \<^verbatim>\<open>d.setDate(d.getDate() + n)\<close>: the local time of \<open>d\<close> is moved by \<open>n\<close> calendar days,
  keeping the local time of day, and read back as an instant (\<^verbatim>\<open>MakeDay\<close> carries a
  day of month outside the month into the neighbouring months).
\<close>

definition addLocalDays :: "env \<Rightarrow> instant \<Rightarrow> int \<Rightarrow> instant" where
  "addLocalDays e d n = utcOf e (localTime e d + n * msPerDay)"

text \<open>
  \<^verbatim>\<open>getWeekStart\<close> of overtimeCalculationService.js:
  \<^verbatim>\<open>new Date(d.setDate(d.getDate() - d.getDay()))\<close>.
\<close>

definition getWeekStart :: "env \<Rightarrow> instant \<Rightarrow> instant" where
  "getWeekStart e date = (let day = getDay e date in addLocalDays e date (- day))"

section \<open>Documents and the database\<close>

datatype shiftStatus = Open | Requested | Approved
datatype requestStatus = Pending | RequestApproved | RequestRejected
datatype swapType = Swap | GiveUp | Coverage
datatype userRole = Staff | Manager

record shift =
  shiftId :: oid
  title :: string
  department :: string
  date :: instant
  startTime :: string
  endTime :: string
  postedBy :: oid
  status :: shiftStatus
  assignedTo :: "oid option"
  facility :: "oid option"
  requiredCredentials :: "oid list"
  isEmergency :: bool
  incentiveAmount :: rat
  incentiveDescription :: "string option"

record swapRequest =
  requestId :: oid
  requestShift :: oid
  requestedBy :: oid
  requestStatus :: requestStatus
  manager :: "oid option"
  requestSwapType :: swapType
  preferredReplacementShifts :: "oid list"
  reason :: string
  responseDeadline :: instant

record workHours =
  whUser :: oid
  whShift :: oid
  whDate :: instant
  hoursWorked :: rat
  weekStartDate :: instant
  month :: int
  year :: int

datatype historyAction = Created | Updated | ApprovedAction | RejectedAction

datatype snapshot =
  NoSnapshot
  | ShiftSnapshot shift
  | AssignmentSnapshot "oid option" shiftStatus
  | StatusSnapshot shiftStatus

record shiftHistory =
  historyShift :: oid
  action :: historyAction
  performedBy :: oid
  previousValue :: snapshot
  newValue :: snapshot
  description :: string

datatype notificationType = Approval | Rejection

text \<open>
  A notification keeps its recipient, type and shift; of the message text it keeps the one
  part that varies with the data, the projected weekly hours quoted when the approval
  brings overtime.
\<close>

record notification =
  notifiedUser :: oid
  notificationType :: notificationType
  relatedShift :: oid
  overtimeNote :: "rat option"

record userCredential =
  credential :: oid
  licenseNumber :: "string option"
  issuedDate :: "instant option"
  expirationDate :: "instant option"
  isActive :: bool

record user =
  userId :: oid
  role :: userRole
  userDepartment :: string
  userFacility :: "oid option"
  credentials :: "userCredential list"

record store =
  shifts :: "shift list"
  swapRequests :: "swapRequest list"
  workHoursLedger :: "workHours list"
  histories :: "shiftHistory list"
  notifications :: "notification list"
  users :: "user list"
  credentialCatalog :: "oid list"
  nextId :: oid

definition findShift :: "store \<Rightarrow> oid \<Rightarrow> shift option" where
  "findShift st i = find (\<lambda>s. shiftId s = i) (shifts st)"

definition findRequest :: "store \<Rightarrow> oid \<Rightarrow> swapRequest option" where
  "findRequest st i = find (\<lambda>r. requestId r = i) (swapRequests st)"

definition findUser :: "store \<Rightarrow> oid \<Rightarrow> user option" where
  "findUser st i = find (\<lambda>u. userId u = i) (users st)"

text \<open>\<^verbatim>\<open>doc.save()\<close> of a loaded document replaces the stored document of that id.\<close>

definition saveShift :: "store \<Rightarrow> shift \<Rightarrow> store" where
  "saveShift st s =
     st\<lparr>shifts := map (\<lambda>x. if shiftId x = shiftId s then s else x) (shifts st)\<rparr>"

definition saveRequest :: "store \<Rightarrow> swapRequest \<Rightarrow> store" where
  "saveRequest st r =
     st\<lparr>swapRequests := map (\<lambda>x. if requestId x = requestId r then r else x) (swapRequests st)\<rparr>"

text \<open>\<^verbatim>\<open>recordHistory\<close> of shiftHistoryService.js.\<close>

definition recordHistory ::
  "store \<Rightarrow> oid \<Rightarrow> historyAction \<Rightarrow> oid \<Rightarrow> snapshot \<Rightarrow> snapshot \<Rightarrow> string \<Rightarrow> store" where
  "recordHistory st sid act who prev new descr =
     st\<lparr>histories := histories st @
        [\<lparr>historyShift = sid, action = act, performedBy = who, previousValue = prev,
          newValue = new, description = descr\<rparr>]\<rparr>"

section \<open>Overlap validation service\<close>

text \<open>
  The query of \<^verbatim>\<open>checkUserShiftOverlap\<close> and \<^verbatim>\<open>checkDepartmentShiftOverlap\<close>: the status
  filter, and the exclusion of one shift when an id is given. In the overlap filters a time
  that does not parse never overlaps, as every comparison with \<^verbatim>\<open>NaN\<close> is false.
\<close>

definition activeOn :: "instant \<Rightarrow> oid option \<Rightarrow> shift \<Rightarrow> bool" where
  "activeOn d excludeShiftId s =
     (date s = d \<and> List.member [Open, Requested, Approved] (status s) \<and>
      (case excludeShiftId of None \<Rightarrow> True | Some x \<Rightarrow> shiftId s \<noteq> x))"

definition checkUserShiftOverlap ::
  "store \<Rightarrow> oid \<Rightarrow> instant \<Rightarrow> string \<Rightarrow> string \<Rightarrow> oid option \<Rightarrow> shift list" where
  "checkUserShiftOverlap st uid d startT endT excludeShiftId =
     (let existingShifts =
            filter (\<lambda>s. assignedTo s = Some uid \<and> activeOn d excludeShiftId s) (shifts st)
      in filter (\<lambda>s. timeRangesOverlap startT endT (startTime s) (endTime s) = Some True)
           existingShifts)"

definition checkDepartmentShiftOverlap ::
  "store \<Rightarrow> string \<Rightarrow> instant \<Rightarrow> string \<Rightarrow> string \<Rightarrow> oid option \<Rightarrow> shift list" where
  "checkDepartmentShiftOverlap st dept d startT endT excludeShiftId =
     (let existingShifts =
            filter (\<lambda>s. department s = dept \<and> activeOn d excludeShiftId s) (shifts st)
      in filter (\<lambda>s. timeRangesOverlap startT endT (startTime s) (endTime s) = Some True)
           existingShifts)"

record shiftData =
  dataAssignedTo :: "oid option"
  dataDepartment :: string
  dataDate :: instant
  dataStartTime :: string
  dataEndTime :: string

datatype overlapIssue = UserOverlap "oid list" | DepartmentOverlap "oid list"

record overlapCheck =
  isValid :: bool
  errors :: "overlapIssue list"
  warnings :: "overlapIssue list"

definition validateShiftOverlap :: "store \<Rightarrow> shiftData \<Rightarrow> oid option \<Rightarrow> overlapCheck" where
  "validateShiftOverlap st sd excludeShiftId =
     (let errs =
            (case dataAssignedTo sd of
               None \<Rightarrow> []
             | Some uid \<Rightarrow>
                 (let userOverlap =
                        checkUserShiftOverlap st uid (dataDate sd) (dataStartTime sd)
                          (dataEndTime sd) excludeShiftId
                  in if userOverlap \<noteq> [] then [UserOverlap (map shiftId userOverlap)] else []));
          deptOverlap =
            checkDepartmentShiftOverlap st (dataDepartment sd) (dataDate sd) (dataStartTime sd)
              (dataEndTime sd) excludeShiftId;
          warns = (if deptOverlap \<noteq> [] then [DepartmentOverlap (map shiftId deptOverlap)] else [])
      in \<lparr>isValid = (errs = []), errors = errs, warnings = warns\<rparr>)"

section \<open>Credential verification service\<close>

record credentialCheck =
  credentialsValid :: bool
  missingCredentials :: "oid list"
  expiredCredentials :: "(oid \<times> instant) list"

text \<open>
  A user's records name credentials of the catalog (no handler deletes a credential), so
  \<^verbatim>\<open>populate('credentials.credential')\<close> resolves every record and the ids are compared
  directly.

  The loop of \<^verbatim>\<open>verifyUserCredentials\<close> over the required ids: the first record of that
  credential that is active decides; none means missing, one whose expiration date lies
  before the clock means expired.
\<close>

fun classifyRequired ::
  "instant \<Rightarrow> userCredential list \<Rightarrow> oid list \<Rightarrow> oid list \<times> (oid \<times> instant) list" where
  "classifyRequired clock creds [] = ([], [])"
| "classifyRequired clock creds (requiredId # rest) =
     (case classifyRequired clock creds rest of
        (missing, expired) \<Rightarrow>
          (case find (\<lambda>c. credential c = requiredId \<and> isActive c) creds of
             None \<Rightarrow> (requiredId # missing, expired)
           | Some userCred \<Rightarrow>
               (case expirationDate userCred of
                  None \<Rightarrow> (missing, expired)
                | Some x \<Rightarrow>
                    if x < clock then (missing, (requiredId, x) # expired)
                    else (missing, expired))))"

definition verifyUserCredentials :: "env \<Rightarrow> store \<Rightarrow> oid \<Rightarrow> oid list \<Rightarrow> credentialCheck" where
  "verifyUserCredentials e st uid requiredCredentialIds =
     (if requiredCredentialIds = [] then
        \<lparr>credentialsValid = True, missingCredentials = [], expiredCredentials = []\<rparr>
      else
        (case findUser st uid of
           None \<Rightarrow>
             \<lparr>credentialsValid = False, missingCredentials = requiredCredentialIds,
              expiredCredentials = []\<rparr>
         | Some u \<Rightarrow>
             (case classifyRequired (now e) (credentials u) requiredCredentialIds of
                (missing, expired) \<Rightarrow>
                  \<lparr>credentialsValid = (missing = [] \<and> expired = []),
                   missingCredentials = missing, expiredCredentials = expired\<rparr>)))"

definition filterShiftsByCredentials :: "env \<Rightarrow> store \<Rightarrow> shift list \<Rightarrow> oid \<Rightarrow> shift list" where
  "filterShiftsByCredentials e st candidates uid =
     (case findUser st uid of
        None \<Rightarrow> []
      | Some u \<Rightarrow>
          (let userActiveCredentialIds =
                 map credential
                   (filter (\<lambda>c. isActive c \<and>
                                (case expirationDate c of None \<Rightarrow> True | Some x \<Rightarrow> x \<ge> now e))
                      (credentials u))
           in filter (\<lambda>s. requiredCredentials s = [] \<or>
                           list_all (\<lambda>i. List.member userActiveCredentialIds i)
                             (requiredCredentials s))
                candidates))"

text \<open>\<^verbatim>\<open>a || b\<close> on optional values that are truthy whenever they are present.\<close>

definition orElse :: "'a option \<Rightarrow> 'a option \<Rightarrow> 'a option" where
  "orElse a b = (case a of None \<Rightarrow> b | Some x \<Rightarrow> Some x)"

text \<open>A user with at most one active record of any credential.\<close>

definition oneActiveRecordPerCredential :: "user \<Rightarrow> bool" where
  "oneActiveRecordPerCredential u = distinct (map credential (filter isActive (credentials u)))"

section \<open>Overtime calculation service\<close>

definition getWeeklyHours :: "env \<Rightarrow> store \<Rightarrow> oid \<Rightarrow> instant \<Rightarrow> rat" where
  "getWeeklyHours e st uid d =
     (let weekStart = getWeekStart e d;
          weekEnd = addLocalDays e weekStart 7
      in sum_list (map hoursWorked
           (filter (\<lambda>wh. whUser wh = uid \<and> weekStart \<le> whDate wh \<and> whDate wh < weekEnd)
              (workHoursLedger st))))"

record overtimeCheck =
  wouldExceed :: bool
  currentHours :: rat
  projectedHours :: "rat option"
  threshold :: rat
  shiftHours :: "rat option"

text \<open>
  \<^verbatim>\<open>checkOvertime\<close> with its default threshold of 40. Hours that do not parse (\<open>None\<close>,
  JavaScript's \<^verbatim>\<open>NaN\<close>) never exceed the threshold.
\<close>

definition checkOvertime :: "env \<Rightarrow> store \<Rightarrow> oid \<Rightarrow> instant \<Rightarrow> string \<Rightarrow> string \<Rightarrow> overtimeCheck" where
  "checkOvertime e st uid shiftDate startT endT =
     (let currentWeeklyHours = getWeeklyHours e st uid shiftDate;
          hours = calculateHours startT endT;
          projected = map_option (\<lambda>h. currentWeeklyHours + h) hours
      in \<lparr>wouldExceed = (case projected of None \<Rightarrow> False | Some p \<Rightarrow> p > 40),
          currentHours = currentWeeklyHours, projectedHours = projected, threshold = 40,
          shiftHours = hours\<rparr>)"

text \<open>
  \<^verbatim>\<open>recordWorkHours\<close>: the document it creates. Hours that do not parse are refused by the
  schema's number field and negative hours by its \<^verbatim>\<open>min: 0\<close>, so the write throws
  (\<open>None\<close>).
\<close>

definition recordWorkHours ::
  "env \<Rightarrow> store \<Rightarrow> oid \<Rightarrow> oid \<Rightarrow> instant \<Rightarrow> string \<Rightarrow> string \<Rightarrow> store option" where
  "recordWorkHours e st uid sid shiftDate startT endT =
     (case calculateHours startT endT of
        None \<Rightarrow> None
      | Some hours \<Rightarrow>
          (let weekStart = getWeekStart e shiftDate;
               m = getMonth e shiftDate + 1;
               y = getFullYear e shiftDate
           in if hours < 0 then None
              else Some (st\<lparr>workHoursLedger := workHoursLedger st @
                [\<lparr>whUser = uid, whShift = sid, whDate = shiftDate, hoursWorked = hours,
                  weekStartDate = weekStart, month = m, year = y\<rparr>]\<rparr>)))"

section \<open>Request handlers\<close>

text \<open>
  A handler maps the database to a reply and the database it leaves behind. \<open>NextError\<close>
  is \<^verbatim>\<open>next(error)\<close> in the handler's \<^verbatim>\<open>catch\<close>: an exception (a rejected write, a schema
  validation error, a property read on \<^verbatim>\<open>null\<close>) escaped the body. No handler opens a
  transaction or undoes a write, so with \<open>NextError\<close> the database returned is the one
  the writes before the exception produced.
\<close>

datatype payload =
  NoData
  | OverlapFailure "overlapIssue list" "overlapIssue list"
  | CredentialFailure credentialCheck
  | ShiftResult shift "overlapIssue list"
  | RequestResult swapRequest "overtimeCheck option"

datatype reply = Reply nat string payload | NextError

record actor =
  actorId :: oid
  actorRole :: userRole
  actorFacility :: "oid option"

text \<open>JavaScript truthiness of an optional string: undefined and the empty string are falsy.\<close>

definition truthy :: "string option \<Rightarrow> string option" where
  "truthy x = (case x of None \<Rightarrow> None | Some s \<Rightarrow> if s = [] then None else Some s)"

subsection \<open>shiftController.js\<close>

record createShiftBody =
  newTitle :: string
  newDepartment :: string
  newDate :: instant
  newStartTime :: string
  newEndTime :: string
  newFacility :: "oid option"
  newRequiredCredentials :: "oid list option"
  newIsEmergency :: "bool option"
  newIncentiveAmount :: "rat option"
  newIncentiveDescription :: "string option"
  newAssignedTo :: "oid option"

text \<open>
  \<^verbatim>\<open>createShift\<close>. Writes: 1 \<^verbatim>\<open>Shift.create\<close> (which also throws when the schema's
  \<^verbatim>\<open>min: 0\<close> on the incentive amount is violated), 2 the history record.
\<close>

definition createShift :: "env \<Rightarrow> store \<Rightarrow> actor \<Rightarrow> createShiftBody \<Rightarrow> reply \<times> store" where
  "createShift e st who b =
     (let overlap =
            (case newAssignedTo b of
               None \<Rightarrow> None
             | Some a \<Rightarrow>
                 Some (validateShiftOverlap st
                   \<lparr>dataAssignedTo = Some a, dataDepartment = newDepartment b,
                    dataDate = newDate b, dataStartTime = newStartTime b,
                    dataEndTime = newEndTime b\<rparr> None));
          overlapWarnings = (case overlap of Some c \<Rightarrow> warnings c | None \<Rightarrow> []);
          created =
            \<lparr>shiftId = nextId st, title = newTitle b, department = newDepartment b,
             date = newDate b, startTime = newStartTime b, endTime = newEndTime b,
             postedBy = actorId who,
             status = (case newAssignedTo b of Some a \<Rightarrow> Approved | None \<Rightarrow> Open),
             assignedTo = newAssignedTo b,
             facility = orElse (newFacility b) (actorFacility who),
             requiredCredentials =
               (case newRequiredCredentials b of Some cs \<Rightarrow> cs | None \<Rightarrow> []),
             isEmergency = (case newIsEmergency b of Some x \<Rightarrow> x | None \<Rightarrow> False),
             incentiveAmount = (case newIncentiveAmount b of Some x \<Rightarrow> x | None \<Rightarrow> 0),
             incentiveDescription = truthy (newIncentiveDescription b)\<rparr>;
          st1 = st\<lparr>shifts := shifts st @ [created], nextId := nextId st + 1\<rparr>;
          st2 = recordHistory st1 (shiftId created) Created (actorId who) NoSnapshot
                  (ShiftSnapshot created) ''Shift created''
      in
        if (case overlap of Some c \<Rightarrow> \<not> isValid c | None \<Rightarrow> False) then
          (Reply 400 ''Shift overlap validation failed''
             (case overlap of Some c \<Rightarrow> OverlapFailure (errors c) (warnings c) | None \<Rightarrow> NoData),
           st)
        else if incentiveAmount created < 0 \<or> failingWrite e = Some 1 then (NextError, st)
        else if failingWrite e = Some 2 then (NextError, st1)
        else (Reply 201 ''Shift created successfully'' (ShiftResult created overlapWarnings), st2))"

text \<open>
  The body of an update: \<open>None\<close> is a field that is \<^verbatim>\<open>undefined\<close>. A date comes as its
  text together with the instant \<^verbatim>\<open>new Date(text)\<close> denotes. The route's validation admits
  only ids for \<^verbatim>\<open>assignedTo\<close> and only the three status words for \<^verbatim>\<open>status\<close>.
\<close>

record updateShiftBody =
  updTitle :: "string option"
  updDepartment :: "string option"
  updDate :: "(string \<times> instant) option"
  updStartTime :: "string option"
  updEndTime :: "string option"
  updFacility :: "oid option"
  updRequiredCredentials :: "oid list option"
  updIsEmergency :: "bool option"
  updIncentiveAmount :: "rat option"
  updIncentiveDescription :: "string option"
  updAssignedTo :: "oid option"
  updStatus :: "shiftStatus option"

definition differsFrom :: "string option \<Rightarrow> string \<Rightarrow> bool" where
  "differsFrom x current = (case truthy x of None \<Rightarrow> False | Some s \<Rightarrow> s \<noteq> current)"

definition orCurrent :: "'a option \<Rightarrow> 'a \<Rightarrow> 'a" where
  "orCurrent x current = (case x of None \<Rightarrow> current | Some v \<Rightarrow> v)"

text \<open>The assignments \<^verbatim>\<open>if (field !== undefined) shift.field = field\<close>.\<close>

definition applyUpdate :: "updateShiftBody \<Rightarrow> shift \<Rightarrow> shift" where
  "applyUpdate b s =
     s\<lparr>title := orCurrent (updTitle b) (title s),
       department := orCurrent (updDepartment b) (department s),
       date := orCurrent (map_option snd (updDate b)) (date s),
       startTime := orCurrent (updStartTime b) (startTime s),
       endTime := orCurrent (updEndTime b) (endTime s),
       facility := orElse (updFacility b) (facility s),
       requiredCredentials := orCurrent (updRequiredCredentials b) (requiredCredentials s),
       isEmergency := orCurrent (updIsEmergency b) (isEmergency s),
       incentiveAmount := orCurrent (updIncentiveAmount b) (incentiveAmount s),
       incentiveDescription := orElse (updIncentiveDescription b) (incentiveDescription s),
       assignedTo := orElse (updAssignedTo b) (assignedTo s),
       status := orCurrent (updStatus b) (status s)\<rparr>"

text \<open>
  \<^verbatim>\<open>updateShift\<close>. Writes: 1 \<^verbatim>\<open>shift.save()\<close> (throwing on a negative incentive amount),
  2 the history record.
\<close>

definition updateShift ::
  "env \<Rightarrow> store \<Rightarrow> actor \<Rightarrow> oid \<Rightarrow> updateShiftBody \<Rightarrow> reply \<times> store" where
  "updateShift e st who sid b =
     (case findShift st sid of
        None \<Rightarrow> (Reply 404 ''Shift not found'' NoData, st)
      | Some s \<Rightarrow>
          (let isManager = (actorRole who = Manager);
               isOwner = (postedBy s = actorId who);
               timeChanged =
                 (differsFrom (map_option fst (updDate b)) (isoDate (date s)) \<or>
                  differsFrom (updStartTime b) (startTime s) \<or>
                  differsFrom (updEndTime b) (endTime s));
               assignedChanged =
                 (case updAssignedTo b of None \<Rightarrow> False | Some a \<Rightarrow> Some a \<noteq> assignedTo s);
               overlap =
                 (if timeChanged \<or> assignedChanged then
                    Some (validateShiftOverlap st
                      \<lparr>dataAssignedTo = orElse (updAssignedTo b) (assignedTo s),
                       dataDepartment = orCurrent (truthy (updDepartment b)) (department s),
                       dataDate =
                         (case updDate b of
                            None \<Rightarrow> date s
                          | Some (txt, d) \<Rightarrow> if txt = [] then date s else d),
                       dataStartTime = orCurrent (truthy (updStartTime b)) (startTime s),
                       dataEndTime = orCurrent (truthy (updEndTime b)) (endTime s)\<rparr>
                      (Some sid))
                  else None);
               overlapWarnings = (case overlap of Some c \<Rightarrow> warnings c | None \<Rightarrow> []);
               updated = applyUpdate b s;
               st1 = saveShift st updated;
               st2 = recordHistory st1 (shiftId updated) Updated (actorId who) (ShiftSnapshot s)
                       (ShiftSnapshot updated) ''Shift updated''
           in
             if \<not> isManager \<and> \<not> isOwner then
               (Reply 403 ''Access denied. Only managers or shift owners can update shifts.''
                  NoData, st)
             else if (case overlap of Some c \<Rightarrow> \<not> isValid c | None \<Rightarrow> False) then
               (Reply 400 ''Shift overlap validation failed''
                  (case overlap of
                     Some c \<Rightarrow> OverlapFailure (errors c) (warnings c)
                   | None \<Rightarrow> NoData),
                st)
             else if incentiveAmount updated < 0 \<or> failingWrite e = Some 1 then (NextError, st)
             else if failingWrite e = Some 2 then (NextError, st1)
             else (Reply 200 ''Shift updated successfully'' (ShiftResult updated overlapWarnings),
                   st2)))"

subsection \<open>swapRequestController.js\<close>

record swapRequestBody =
  bodyShiftId :: oid
  bodySwapType :: swapType
  bodyPreferredReplacementShifts :: "oid list option"
  bodyReason :: string
  bodyResponseDeadline :: instant

text \<open>
  \<^verbatim>\<open>populate("requiredCredentials")\<close> keeps the ids that name a credential of the catalog.
\<close>

definition populatedCredentialIds :: "store \<Rightarrow> shift \<Rightarrow> oid list" where
  "populatedCredentialIds st s =
     filter (\<lambda>c. List.member (credentialCatalog st) c) (requiredCredentials s)"

text \<open>
  \<^verbatim>\<open>createSwapRequest\<close>. Writes: 1 \<^verbatim>\<open>ShiftSwapRequest.create\<close>, which the unique index on
  (shift, requestedBy) refuses with error 11000 when a request of that pair is stored (the
  \<^verbatim>\<open>catch\<close> turns that into the same 400 reply as the explicit check), 2 \<^verbatim>\<open>shift.save()\<close>.
\<close>

definition createSwapRequest ::
  "env \<Rightarrow> store \<Rightarrow> actor \<Rightarrow> swapRequestBody \<Rightarrow> reply \<times> store" where
  "createSwapRequest e st who b =
     (case findShift st (bodyShiftId b) of
        None \<Rightarrow> (Reply 404 ''Shift not found'' NoData, st)
      | Some s \<Rightarrow>
          (let credCheck = verifyUserCredentials e st (actorId who) (populatedCredentialIds st s);
               overtime = checkOvertime e st (actorId who) (date s) (startTime s) (endTime s);
               existingRequest =
                 find (\<lambda>r. requestShift r = bodyShiftId b \<and> requestedBy r = actorId who)
                   (swapRequests st);
               created =
                 \<lparr>requestId = nextId st, requestShift = bodyShiftId b,
                  requestedBy = actorId who, requestStatus = Pending, manager = None,
                  requestSwapType = bodySwapType b,
                  preferredReplacementShifts =
                    (case bodyPreferredReplacementShifts b of Some ps \<Rightarrow> ps | None \<Rightarrow> []),
                  reason = bodyReason b, responseDeadline = bodyResponseDeadline b\<rparr>;
               st1 = st\<lparr>swapRequests := swapRequests st @ [created], nextId := nextId st + 1\<rparr>;
               st2 = saveShift st1 (s\<lparr>status := Requested\<rparr>)
           in
             if status s \<noteq> Open then
               (Reply 400 ''Shift is not available for swap requests'' NoData, st)
             else if postedBy s = actorId who then
               (Reply 400 ''Cannot request your own shift'' NoData, st)
             else if \<not> credentialsValid credCheck then
               (Reply 403 ''You do not have the required credentials for this shift''
                  (CredentialFailure credCheck), st)
             else if existingRequest \<noteq> None then
               (Reply 400 ''You have already requested this shift'' NoData, st)
             else if failingWrite e = Some 1 then (NextError, st)
             else if list_ex (\<lambda>r. requestShift r = bodyShiftId b \<and> requestedBy r = actorId who)
                       (swapRequests st) then
               (Reply 400 ''You have already requested this shift'' NoData, st)
             else if failingWrite e = Some 2 then (NextError, st1)
             else (Reply 201 ''Shift swap request created successfully''
                     (RequestResult created (if wouldExceed overtime then Some overtime else None)),
                   st2)))"

subsection \<open>managerController.js\<close>

text \<open>
  \<^verbatim>\<open>approveRequest\<close>. Writes: 1 \<^verbatim>\<open>swapRequest.save()\<close>, 2 \<^verbatim>\<open>shift.save()\<close>,
  3 \<^verbatim>\<open>recordWorkHours\<close>, 4 the history record, 5 the notification. The request is loaded
  with its shift and its requester populated; reading through either when it is \<^verbatim>\<open>null\<close>
  throws, after write 1.
\<close>

definition approveRequest :: "env \<Rightarrow> store \<Rightarrow> actor \<Rightarrow> oid \<Rightarrow> reply \<times> store" where
  "approveRequest e st who rid =
     (case findRequest st rid of
        None \<Rightarrow> (Reply 404 ''Swap request not found'' NoData, st)
      | Some swapReq \<Rightarrow>
          if requestStatus swapReq \<noteq> Pending then
            (Reply 400 ''Request is not pending'' NoData, st)
          else if failingWrite e = Some 1 then (NextError, st)
          else
            (let approved = swapReq\<lparr>requestStatus := RequestApproved, manager := Some (actorId who)\<rparr>;
                 st1 = saveRequest st approved
             in
               (case (findUser st (requestedBy swapReq), findShift st (requestShift swapReq)) of
                  (Some requester, Some s) \<Rightarrow>
                    (let overtime =
                           checkOvertime e st1 (userId requester) (date s) (startTime s) (endTime s);
                         previousAssignedTo = assignedTo s;
                         assigned = s\<lparr>assignedTo := Some (userId requester), status := Approved\<rparr>;
                         st2 = saveShift st1 assigned
                     in
                       if failingWrite e = Some 2 then (NextError, st1)
                       else if failingWrite e = Some 3 then (NextError, st2)
                       else
                         (case recordWorkHours e st2 (userId requester) (shiftId assigned)
                                 (date assigned) (startTime assigned) (endTime assigned) of
                            None \<Rightarrow> (NextError, st2)
                          | Some st3 \<Rightarrow>
                              (let st4 = recordHistory st3 (shiftId assigned) ApprovedAction
                                           (actorId who)
                                           (AssignmentSnapshot previousAssignedTo Requested)
                                           (AssignmentSnapshot (Some (userId requester)) Approved)
                                           ''Shift swap request approved by manager'';
                                   st5 = st4\<lparr>notifications := notifications st4 @
                                           [\<lparr>notifiedUser = userId requester,
                                             notificationType = Approval,
                                             relatedShift = shiftId assigned,
                                             overtimeNote =
                                               (if wouldExceed overtime then projectedHours overtime
                                                else None)\<rparr>]\<rparr>
                               in
                                 if failingWrite e = Some 4 then (NextError, st3)
                                 else if failingWrite e = Some 5 then (NextError, st4)
                                 else (Reply 200 ''Shift swap request approved successfully''
                                         (RequestResult approved
                                            (if wouldExceed overtime then Some overtime else None)),
                                       st5))))
                | _ \<Rightarrow> (NextError, st1))))"

text \<open>
  \<^verbatim>\<open>rejectRequest\<close>. Writes: 1 \<^verbatim>\<open>swapRequest.save()\<close>, 2 \<^verbatim>\<open>shift.save()\<close>, 3 the history
  record, 4 the notification.
\<close>

definition rejectRequest :: "env \<Rightarrow> store \<Rightarrow> actor \<Rightarrow> oid \<Rightarrow> reply \<times> store" where
  "rejectRequest e st who rid =
     (case findRequest st rid of
        None \<Rightarrow> (Reply 404 ''Swap request not found'' NoData, st)
      | Some swapReq \<Rightarrow>
          if requestStatus swapReq \<noteq> Pending then
            (Reply 400 ''Request is not pending'' NoData, st)
          else if failingWrite e = Some 1 then (NextError, st)
          else
            (let rejected = swapReq\<lparr>requestStatus := RequestRejected, manager := Some (actorId who)\<rparr>;
                 st1 = saveRequest st rejected
             in
               (case findShift st (requestShift swapReq) of
                  None \<Rightarrow> (NextError, st1)
                | Some s \<Rightarrow>
                    (let previousStatus = status s;
                         reopened = s\<lparr>status := Open\<rparr>;
                         st2 = saveShift st1 reopened;
                         st3 = recordHistory st2 (shiftId reopened) RejectedAction (actorId who)
                                 (StatusSnapshot previousStatus) (StatusSnapshot Open)
                                 ''Shift swap request rejected by manager''
                     in
                       if failingWrite e = Some 2 then (NextError, st1)
                       else if failingWrite e = Some 3 then (NextError, st2)
                       else
                         (case findUser st (requestedBy swapReq) of
                            None \<Rightarrow> (NextError, st3)
                          | Some requester \<Rightarrow>
                              if failingWrite e = Some 4 then (NextError, st3)
                              else
                                (Reply 200 ''Shift swap request rejected successfully''
                                   (RequestResult rejected None),
                                 st3\<lparr>notifications := notifications st3 @
                                   [\<lparr>notifiedUser = userId requester,
                                     notificationType = Rejection,
                                     relatedShift = shiftId reopened,
                                     overtimeNote = None\<rparr>]\<rparr>))))))"

text \<open>The entity invariant of a shift, as the specification words it.\<close>

definition shiftInvariant :: "shift \<Rightarrow> bool" where
  "shiftInvariant s =
     ((if assignedTo s \<noteq> None then status s = Approved else True) \<and>
      (if status s = Open then assignedTo s = None else True))"

section \<open>Week buckets\<close>


text \<open>
  The Monday-aligned week start of the data model in the specification, read on the
  calendar date that the stored date shows (its UTC date, as a date-only ISO text is
  stored): the date moved back to the most recent Monday, for comparison with what
  \<open>getWeekStart\<close> computes.
\<close>

definition mondayWeekStart_spec :: "instant \<Rightarrow> instant" where
  "mondayWeekStart_spec d = d - (((d div msPerDay + 4) mod 7 + 6) mod 7) * msPerDay"

text \<open>A zone whose offset never changes.\<close>

definition fixedZone :: "env \<Rightarrow> int \<Rightarrow> bool" where
  "fixedZone e offset = (\<forall>isUTC t. localTZA e isUTC t = offset)"

text \<open>A server in UTC whose writes all succeed, and a database with nothing in it.\<close>

definition utcEnv :: env where
  "utcEnv = \<lparr>now = 1704067200000, localTZA = (\<lambda>isUTC t. 0), failingWrite = None\<rparr>"

text \<open>
  A server five hours behind UTC throughout, and a server on United States Central time
  around the clock change of 2024-03-10, when local time went from 02:00 (UTC-6) to 03:00
  (UTC-5) at 08:00Z; a local time that the change skipped is read with the offset before it.
\<close>

definition fiveBehindEnv :: env where
  "fiveBehindEnv =
     \<lparr>now = 1704067200000, localTZA = (\<lambda>isUTC t. - 18000000), failingWrite = None\<rparr>"

definition centralEnv :: env where
  "centralEnv =
     \<lparr>now = 1704067200000,
      localTZA = (\<lambda>isUTC t.
        if isUTC then (if t < 1710057600000 then - 21600000 else - 18000000)
        else (if t < 1710039600000 then - 21600000 else - 18000000)),
      failingWrite = None\<rparr>"

definition emptyStore :: store where
  "emptyStore =
     \<lparr>shifts = [], swapRequests = [], workHoursLedger = [], histories = [], notifications = [],
      users = [], credentialCatalog = [], nextId = 1\<rparr>"


section \<open>A ward, for concrete runs\<close>

text \<open>
  Nurse 7 holds credential 100 without expiration, credential 101 expiring exactly at the
  clock of \<open>utcEnv\<close>, credential 102 expired a millisecond earlier, and a deactivated
  record of credential 103. Newcomer 6 holds none. User 8 posts shifts, user 9 manages.
\<close>

definition credentialRecord :: "oid \<Rightarrow> instant option \<Rightarrow> bool \<Rightarrow> userCredential" where
  "credentialRecord c expires active =
     \<lparr>credential = c, licenseNumber = None, issuedDate = None, expirationDate = expires,
      isActive = active\<rparr>"

definition staffUser :: "oid \<Rightarrow> userRole \<Rightarrow> userCredential list \<Rightarrow> user" where
  "staffUser i r cs =
     \<lparr>userId = i, role = r, userDepartment = ''ICU'', userFacility = None, credentials = cs\<rparr>"

definition nurse :: user where
  "nurse = staffUser 7 Staff
     [credentialRecord 100 None True,
      credentialRecord 101 (Some 1704067200000) True,
      credentialRecord 102 (Some 1704067199999) True,
      credentialRecord 103 None False]"

definition newcomer :: user where
  "newcomer = staffUser 6 Staff []"

text \<open>
  Worker 4 holds an expired record of credential 100 and, after it, a second active record
  of the same credential without expiration.
\<close>

definition relicensed :: user where
  "relicensed = staffUser 4 Staff
     [credentialRecord 100 (Some 1704067199999) True, credentialRecord 100 None True]"

definition wardStore :: store where
  "wardStore =
     emptyStore\<lparr>users := [nurse, newcomer, staffUser 8 Staff [], staffUser 9 Manager []],
       credentialCatalog := [100, 101, 102, 103], nextId := 50\<rparr>"

definition relicensedStore :: store where
  "relicensedStore = wardStore\<lparr>users := relicensed # users wardStore\<rparr>"

definition nurseActor :: actor where
  "nurseActor = \<lparr>actorId = 7, actorRole = Staff, actorFacility = None\<rparr>"

definition newcomerActor :: actor where
  "newcomerActor = \<lparr>actorId = 6, actorRole = Staff, actorFacility = None\<rparr>"

definition posterActor :: actor where
  "posterActor = \<lparr>actorId = 8, actorRole = Staff, actorFacility = None\<rparr>"

definition managerActor :: actor where
  "managerActor = \<lparr>actorId = 9, actorRole = Manager, actorFacility = None\<rparr>"

text \<open>An open ICU shift on Wednesday 2024-01-17 posted by user 8.\<close>

definition openShift :: "oid \<Rightarrow> string \<Rightarrow> string \<Rightarrow> oid list \<Rightarrow> shift" where
  "openShift i startT endT creds =
     \<lparr>shiftId = i, title = ''Ward cover'', department = ''ICU'', date = 1705449600000,
      startTime = startT, endTime = endT, postedBy = 8, status = Open, assignedTo = None,
      facility = None, requiredCredentials = creds, isEmergency = False, incentiveAmount = 0,
      incentiveDescription = None\<rparr>"

definition replyCode :: "reply \<Rightarrow> nat option" where
  "replyCode r = (case r of Reply c m p \<Rightarrow> Some c | NextError \<Rightarrow> None)"

text \<open>Request bodies for the concrete runs.\<close>

definition requestBody :: "oid \<Rightarrow> swapRequestBody" where
  "requestBody sid =
     \<lparr>bodyShiftId = sid, bodySwapType = Coverage, bodyPreferredReplacementShifts = None,
      bodyReason = ''cover'', bodyResponseDeadline = 1705363200000\<rparr>"

definition shiftBody :: "string \<Rightarrow> string \<Rightarrow> oid list \<Rightarrow> oid option \<Rightarrow> createShiftBody" where
  "shiftBody startT endT creds assignee =
     \<lparr>newTitle = ''Ward cover'', newDepartment = ''ICU'', newDate = 1705449600000,
      newStartTime = startT, newEndTime = endT, newFacility = None,
      newRequiredCredentials = Some creds, newIsEmergency = None, newIncentiveAmount = None,
      newIncentiveDescription = None, newAssignedTo = assignee\<rparr>"

definition noUpdate :: updateShiftBody where
  "noUpdate =
     \<lparr>updTitle = None, updDepartment = None, updDate = None, updStartTime = None,
      updEndTime = None, updFacility = None, updRequiredCredentials = None,
      updIsEmergency = None, updIncentiveAmount = None, updIncentiveDescription = None,
      updAssignedTo = None, updStatus = None\<rparr>"

text \<open>The ward with one open shift, 20, that requires credential 100.\<close>

definition oneShiftStore :: store where
  "oneShiftStore = wardStore\<lparr>shifts := [openShift 20 ''09:00'' ''17:00'' [100]]\<rparr>"

text \<open>What a run leaves of a shift: id, status, assigned worker, start and end.\<close>

definition shiftSummary :: "shift \<Rightarrow> oid \<times> shiftStatus \<times> oid option \<times> string \<times> string" where
  "shiftSummary s = (shiftId s, status s, assignedTo s, startTime s, endTime s)"

text \<open>The ward after nurse 7 has filed request 50 for shift 20.\<close>

definition pendingRequest :: swapRequest where
  "pendingRequest =
     \<lparr>requestId = 50, requestShift = 20, requestedBy = 7, requestStatus = Pending,
      manager = None, requestSwapType = Coverage, preferredReplacementShifts = [],
      reason = ''cover'', responseDeadline = 1705363200000\<rparr>"

definition pendingStore :: store where
  "pendingStore =
     oneShiftStore\<lparr>shifts := [(openShift 20 ''09:00'' ''17:00'' [100])\<lparr>status := Requested\<rparr>],
       swapRequests := [pendingRequest], nextId := 51\<rparr>"

section \<open>Parsing valid times\<close>

lemma is_digit_not_colon: "is_digit ch \<Longrightarrow> ch \<noteq> CHR '':''"
  by (auto simp: is_digit_def)

lemma digit_val_range: "is_digit ch \<Longrightarrow> 0 \<le> digit_val ch \<and> digit_val ch \<le> 9"
  by (auto simp: is_digit_def digit_val_def)

lemma splitOn_hhmm:
  "h1 \<noteq> c \<Longrightarrow> h0 \<noteq> c \<Longrightarrow> m1 \<noteq> c \<Longrightarrow> m0 \<noteq> c \<Longrightarrow>
   splitOn c [h1, h0, c, m1, m0] = [[h1, h0], [m1, m0]]"
  by simp

lemma timeToMinutes_valid:
  assumes "valid_time s"
  shows "timeToMinutes s = Some (minutes_since_midnight s)"
proof -
  from assms obtain h1 h0 m1 m0 where
    s: "s = [h1, h0, CHR '':'', m1, m0]" and
    d: "is_digit h1" "is_digit h0" "is_digit m1" "is_digit m0"
    by (auto simp: valid_time_def split: list.splits)
  from d have ne: "h1 \<noteq> CHR '':''" "h0 \<noteq> CHR '':''" "m1 \<noteq> CHR '':''" "m0 \<noteq> CHR '':''"
    by (simp_all add: is_digit_not_colon)
  have sp: "splitOn CHR '':'' [h1, h0, CHR '':'', m1, m0] = [[h1, h0], [m1, m0]]"
    using ne by (rule splitOn_hhmm)
  show ?thesis
    unfolding s timeToMinutes_def sp minutes_since_midnight_def
    using d by (simp add: Number_str_def)
qed

lemma minutes_since_midnight_range:
  assumes "valid_time s"
  shows "0 \<le> minutes_since_midnight s \<and> minutes_since_midnight s < 1440"
proof -
  from assms obtain h1 h0 m1 m0 where
    s: "s = [h1, h0, CHR '':'', m1, m0]" and
    d: "is_digit h1" "is_digit h0" "is_digit m1" "is_digit m0" and
    b: "digit_val h1 * 10 + digit_val h0 < 24" "digit_val m1 * 10 + digit_val m0 < 60"
    by (auto simp: valid_time_def split: list.splits)
  from d have "0 \<le> digit_val h1" "0 \<le> digit_val h0" "0 \<le> digit_val m1" "0 \<le> digit_val m0"
    by (simp_all add: digit_val_range)
  with b show ?thesis
    by (simp add: minutes_since_midnight_def s)
qed

lemma timeRangesOverlap_valid:
  assumes "valid_time start1" "valid_time end1" "valid_time start2" "valid_time end2"
  shows "timeRangesOverlap start1 end1 start2 end2 =
         Some (minutes_since_midnight start1
                 < adjusted_end (minutes_since_midnight start2) (minutes_since_midnight end2) \<and>
               minutes_since_midnight start2
                 < adjusted_end (minutes_since_midnight start1) (minutes_since_midnight end1))"
  using assms by (simp add: timeRangesOverlap_def timeToMinutes_valid adjusted_end_def)

lemma calculateHours_valid:
  assumes "valid_time t0" "valid_time t1"
  shows "calculateHours t0 t1 = Some (hoursWorked_spec t0 t1)"
proof -
  from assms(1) obtain a1 a0 b1 b0 where
    s: "t0 = [a1, a0, CHR '':'', b1, b0]" and
    ds: "is_digit a1" "is_digit a0" "is_digit b1" "is_digit b0"
    by (auto simp: valid_time_def split: list.splits)
  from assms(2) obtain c1 c0 d1 d0 where
    e: "t1 = [c1, c0, CHR '':'', d1, d0]" and
    de: "is_digit c1" "is_digit c0" "is_digit d1" "is_digit d0"
    by (auto simp: valid_time_def split: list.splits)
  have sps: "splitOn CHR '':'' [a1, a0, CHR '':'', b1, b0] = [[a1, a0], [b1, b0]]"
    using ds by (intro splitOn_hhmm is_digit_not_colon)
  have spe: "splitOn CHR '':'' [c1, c0, CHR '':'', d1, d0] = [[c1, c0], [d1, d0]]"
    using de by (intro splitOn_hhmm is_digit_not_colon)
  show ?thesis
    unfolding s e calculateHours_def sps spe hoursWorked_spec_def minutes_since_midnight_def
    using ds de by (simp add: Number_str_def adjusted_end_def Let_def)
qed

section \<open>Interval overlap\<close>

text \<open>
  C4, as the code has it. With the overnight interval 22:00 to 06:00 first, the overlap
  function answers false against 02:00 to 05:00 (both intervals are read from the same
  calendar date, so 22:00 is not before the other interval's end 05:00) and false against
  07:00 to 09:00.
\<close>

theorem C4_overnight_wrap_amended:
  "timeRangesOverlap ''22:00'' ''06:00'' ''02:00'' ''05:00'' = Some False \<and>
   timeRangesOverlap ''22:00'' ''06:00'' ''07:00'' ''09:00'' = Some False"
  by (simp add: timeRangesOverlap_def timeToMinutes_def Number_str_def is_digit_def digit_val_def)

text \<open>
  The first answer that the specification's example expects, true, is not what the function
  returns.
\<close>

theorem C4_overnight_wrap_counterexample:
  "timeRangesOverlap ''22:00'' ''06:00'' ''02:00'' ''05:00'' \<noteq> Some True"
  by (simp add: timeRangesOverlap_def timeToMinutes_def Number_str_def is_digit_def digit_val_def)

text \<open>
  C5. For valid HH:MM times the function answers true exactly when start1 is before the
  adjusted end2 and start2 is before the adjusted end1, an end before its start being moved
  on by 1440 minutes. The inequalities are strict, so two back-to-back intervals, the
  (adjusted) end of the first being the start of the second, never overlap, as with 09:00
  to 17:00 and 17:00 to 21:00; and the answer does not depend on the order of the two
  intervals.
\<close>

theorem C5_overlap_formula:
  "valid_time start1 \<and> valid_time end1 \<and> valid_time start2 \<and> valid_time end2 \<longrightarrow>
     timeRangesOverlap start1 end1 start2 end2 =
       Some (minutes_since_midnight start1
               < (if minutes_since_midnight end2 < minutes_since_midnight start2
                  then minutes_since_midnight end2 + 1440 else minutes_since_midnight end2) \<and>
             minutes_since_midnight start2
               < (if minutes_since_midnight end1 < minutes_since_midnight start1
                  then minutes_since_midnight end1 + 1440 else minutes_since_midnight end1)) \<and>
     timeRangesOverlap start1 end1 start2 end2 = timeRangesOverlap start2 end2 start1 end1 \<and>
     ((if minutes_since_midnight end1 < minutes_since_midnight start1
       then minutes_since_midnight end1 + 1440 else minutes_since_midnight end1) =
        minutes_since_midnight start2 \<longrightarrow>
        timeRangesOverlap start1 end1 start2 end2 = Some False)"
proof (intro impI)
  assume v: "valid_time start1 \<and> valid_time end1 \<and> valid_time start2 \<and> valid_time end2"
  then have f: "timeRangesOverlap start1 end1 start2 end2 =
         Some (minutes_since_midnight start1
                 < adjusted_end (minutes_since_midnight start2) (minutes_since_midnight end2) \<and>
               minutes_since_midnight start2
                 < adjusted_end (minutes_since_midnight start1) (minutes_since_midnight end1))"
    by (simp add: timeRangesOverlap_valid)
  from v have g: "timeRangesOverlap start2 end2 start1 end1 =
         Some (minutes_since_midnight start2
                 < adjusted_end (minutes_since_midnight start1) (minutes_since_midnight end1) \<and>
               minutes_since_midnight start1
                 < adjusted_end (minutes_since_midnight start2) (minutes_since_midnight end2))"
    by (simp add: timeRangesOverlap_valid)
  have sym: "timeRangesOverlap start1 end1 start2 end2 = timeRangesOverlap start2 end2 start1 end1"
    unfolding f g by (simp add: conj_commute)
  have b2b: "timeRangesOverlap start1 end1 start2 end2 = Some False"
    if "(if minutes_since_midnight end1 < minutes_since_midnight start1
         then minutes_since_midnight end1 + 1440 else minutes_since_midnight end1) =
        minutes_since_midnight start2"
  proof -
    from that
    have "adjusted_end (minutes_since_midnight start1) (minutes_since_midnight end1) =
          minutes_since_midnight start2"
      by (simp only: adjusted_end_def)
    then show ?thesis
      unfolding f by simp
  qed
  have form: "timeRangesOverlap start1 end1 start2 end2 =
       Some (minutes_since_midnight start1
               < (if minutes_since_midnight end2 < minutes_since_midnight start2
                  then minutes_since_midnight end2 + 1440 else minutes_since_midnight end2) \<and>
             minutes_since_midnight start2
               < (if minutes_since_midnight end1 < minutes_since_midnight start1
                  then minutes_since_midnight end1 + 1440 else minutes_since_midnight end1))"
    unfolding f adjusted_end_def by (rule refl)
  from form sym b2b show "timeRangesOverlap start1 end1 start2 end2 =
       Some (minutes_since_midnight start1
               < (if minutes_since_midnight end2 < minutes_since_midnight start2
                  then minutes_since_midnight end2 + 1440 else minutes_since_midnight end2) \<and>
             minutes_since_midnight start2
               < (if minutes_since_midnight end1 < minutes_since_midnight start1
                  then minutes_since_midnight end1 + 1440 else minutes_since_midnight end1)) \<and>
     timeRangesOverlap start1 end1 start2 end2 = timeRangesOverlap start2 end2 start1 end1 \<and>
     ((if minutes_since_midnight end1 < minutes_since_midnight start1
       then minutes_since_midnight end1 + 1440 else minutes_since_midnight end1) =
        minutes_since_midnight start2 \<longrightarrow>
        timeRangesOverlap start1 end1 start2 end2 = Some False)"
    by blast
qed

theorem C5_overlap_formula_witness:
  "valid_time ''09:00'' \<and> valid_time ''17:00'' \<and> valid_time ''21:00'' \<and>
   timeRangesOverlap ''09:00'' ''17:00'' ''17:00'' ''21:00'' = Some False \<and>
   timeRangesOverlap ''17:00'' ''21:00'' ''09:00'' ''17:00'' = Some False"
proof -
  have v: "valid_time ''09:00'' \<and> valid_time ''17:00'' \<and> valid_time ''21:00''"
    by (simp add: valid_time_def is_digit_def digit_val_def)
  have m: "(if minutes_since_midnight ''17:00'' < minutes_since_midnight ''09:00''
            then minutes_since_midnight ''17:00'' + 1440 else minutes_since_midnight ''17:00'') =
           minutes_since_midnight ''17:00''"
    by (simp add: minutes_since_midnight_def digit_val_def)
  from v m C5_overlap_formula [of "''09:00''" "''17:00''" "''17:00''" "''21:00''"]
  show ?thesis by metis
qed

section \<open>Hours worked\<close>

text \<open>
  C9. For valid HH:MM start and end times the hours-worked computation is the difference
  of the minutes since midnight, the end moved on by 1440 minutes when it lies before the
  start, divided by 60; the result is never negative; 09:00 to 17:00 gives 8 hours and the
  overnight 20:00 to 08:00 gives 12.
\<close>

theorem C9_calculateHours:
  "(valid_time t0 \<and> valid_time t1 \<longrightarrow>
      calculateHours t0 t1 = Some (hoursWorked_spec t0 t1) \<and>
      hoursWorked_spec t0 t1 =
        of_int ((if minutes_since_midnight t1 < minutes_since_midnight t0
                 then minutes_since_midnight t1 + 1440
                 else minutes_since_midnight t1) - minutes_since_midnight t0) / 60 \<and>
      0 \<le> hoursWorked_spec t0 t1) \<and>
   calculateHours ''09:00'' ''17:00'' = Some 8 \<and>
   calculateHours ''20:00'' ''08:00'' = Some 12"
proof -
  have conc: "calculateHours ''09:00'' ''17:00'' = Some 8 \<and>
              calculateHours ''20:00'' ''08:00'' = Some 12"
    by (simp add: calculateHours_def Number_str_def is_digit_def digit_val_def)
  have gen: "calculateHours t0 t1 = Some (hoursWorked_spec t0 t1) \<and>
      hoursWorked_spec t0 t1 =
        of_int ((if minutes_since_midnight t1 < minutes_since_midnight t0
                 then minutes_since_midnight t1 + 1440
                 else minutes_since_midnight t1) - minutes_since_midnight t0) / 60 \<and>
      0 \<le> hoursWorked_spec t0 t1"
    if v: "valid_time t0" "valid_time t1"
  proof -
    from v have r: "0 \<le> minutes_since_midnight t0"
      "minutes_since_midnight t0 < 1440" "0 \<le> minutes_since_midnight t1"
      by (simp_all add: minutes_since_midnight_range)
    have nn: "0 \<le> hoursWorked_spec t0 t1"
      using r by (simp add: hoursWorked_spec_def adjusted_end_def)
    show ?thesis
      using v nn by (simp add: calculateHours_valid) (simp add: hoursWorked_spec_def adjusted_end_def)
  qed
  from conc gen show ?thesis by blast
qed

theorem C9_calculateHours_witness:
  "valid_time ''22:30'' \<and> valid_time ''06:00'' \<and>
   calculateHours ''22:30'' ''06:00'' = Some (15 / 2)"
proof -
  have v: "valid_time ''22:30'' \<and> valid_time ''06:00''"
    by (simp add: valid_time_def is_digit_def digit_val_def)
  have "hoursWorked_spec ''22:30'' ''06:00'' = 15 / 2"
    by (simp add: hoursWorked_spec_def minutes_since_midnight_def adjusted_end_def digit_val_def)
  with v C9_calculateHours [of "''22:30''" "''06:00''"] show ?thesis
    by simp
qed

section \<open>Hours ledger: the week start\<close>













text \<open>With a constant offset, local days are days of 86400000 milliseconds.\<close>

lemma fixedZone_localTime: "fixedZone e c \<Longrightarrow> localTime e t = t + c"
  by (simp add: fixedZone_def localTime_def)

lemma fixedZone_utcOf: "fixedZone e c \<Longrightarrow> utcOf e t = t - c"
  by (simp add: fixedZone_def utcOf_def)

lemma fixedZone_addLocalDays: "fixedZone e c \<Longrightarrow> addLocalDays e d n = d + n * msPerDay"
  by (simp add: addLocalDays_def fixedZone_localTime fixedZone_utcOf)

lemma fixedZone_getWeekStart:
  "fixedZone e c \<Longrightarrow> getWeekStart e d = d - getDay e d * msPerDay"
  by (simp add: getWeekStart_def fixedZone_addLocalDays)









text \<open>
  On a server five hours behind UTC a date-only date is an evening of the day before in
  local time, and its week start is the Monday of the calendar date it shows. Across the
  clock change of 2024-03-10 on a Central-time server, the week start of Wednesday
  2024-03-13 00:00 local time (05:00Z) is Sunday 2024-03-10 00:00 local time (06:00Z), one
  hour more than three days of 86400000 milliseconds before.
\<close>

lemma fiveBehind_monday:
  "getWeekStart fiveBehindEnv (k * msPerDay) = mondayWeekStart_spec (k * msPerDay)"
proof -
  have z: "fixedZone fiveBehindEnv (- 18000000)"
    by (simp add: fixedZone_def fiveBehindEnv_def)
  have "(k * msPerDay + - 18000000) div msPerDay = k - 1"
  proof -
    have "k * msPerDay + - 18000000 = (k - 1) * msPerDay + 68400000"
      by (simp add: msPerDay_def algebra_simps)
    then show ?thesis
      by (simp add: msPerDay_def)
  qed
  then have "getDay fiveBehindEnv (k * msPerDay) = (k - 1 + 4) mod 7"
    by (simp only: getDay_def localDay_def fixedZone_localTime [OF z])
  moreover have "k - 1 + 4 = k + 3"
    by simp
  ultimately have g: "getDay fiveBehindEnv (k * msPerDay) = (k + 3) mod 7"
    by (simp only:)
  have "k + 4 + 6 = k + 3 + 7"
    by simp
  then have "(k + 4 + 6) mod 7 = (k + 3) mod 7"
    by (simp only: mod_add_self2)
  then have "((k + 4) mod 7 + 6) mod 7 = (k + 3) mod 7"
    by (simp only: mod_add_left_eq)
  moreover have "k * msPerDay div msPerDay = k"
    by (simp add: msPerDay_def)
  ultimately have "((k * msPerDay div msPerDay + 4) mod 7 + 6) mod 7 = (k + 3) mod 7"
    by simp
  with g show ?thesis
    by (simp only: fixedZone_getWeekStart [OF z] mondayWeekStart_spec_def)
qed

lemma central_clock_change:
  "getWeekStart centralEnv 1710306000000 = 1710050400000 \<and>
   1710306000000 - 3 * msPerDay = 1710046800000"
  by code_simp

section \<open>Credential eligibility: the two paths\<close>

lemma find_Some_set: "find P xs = Some x \<Longrightarrow> x \<in> set xs \<and> P x"
  by (induction xs) (auto split: if_splits)

lemma find_None_set: "find P xs = None \<longleftrightarrow> (\<forall>x\<in>set xs. \<not> P x)"
  by (induction xs) auto

lemma classifyRequired_clean:
  "(classifyRequired clock creds required = ([], [])) \<longleftrightarrow>
   (\<forall>r\<in>set required.
      \<exists>uc. find (\<lambda>c. credential c = r \<and> isActive c) creds = Some uc \<and>
           (case expirationDate uc of None \<Rightarrow> True | Some x \<Rightarrow> clock \<le> x))"
proof (induction required)
  case Nil
  show ?case by simp
next
  case (Cons r rest)
  obtain missing expired where c: "classifyRequired clock creds rest = (missing, expired)"
    by (cases "classifyRequired clock creds rest")
  show ?case
    using Cons.IH unfolding c
    by (auto simp: c split: option.splits)
qed

lemma first_active_record:
  assumes "distinct (map credential (filter isActive creds))"
  shows "(\<exists>uc. find (\<lambda>c. credential c = r \<and> isActive c) creds = Some uc \<and>
              (case expirationDate uc of None \<Rightarrow> True | Some x \<Rightarrow> clock \<le> x)) \<longleftrightarrow>
         r \<in> set (map credential
                 (filter (\<lambda>c. isActive c \<and>
                             (case expirationDate c of None \<Rightarrow> True | Some x \<Rightarrow> x \<ge> clock))
                    creds))"
    (is "?single \<longleftrightarrow> ?bulk")
proof
  assume ?single
  then obtain uc where f: "find (\<lambda>c. credential c = r \<and> isActive c) creds = Some uc"
    and ok: "case expirationDate uc of None \<Rightarrow> True | Some x \<Rightarrow> clock \<le> x"
    by blast
  from find_Some_set [OF f] have "uc \<in> set creds" "credential uc = r" "isActive uc"
    by simp_all
  with ok show ?bulk
    by (auto simp: image_iff intro!: bexI [of _ uc])
next
  assume ?bulk
  then obtain c where c: "c \<in> set creds" "credential c = r" "isActive c"
    and ok: "case expirationDate c of None \<Rightarrow> True | Some x \<Rightarrow> clock \<le> x"
    by auto
  from c have "find (\<lambda>c. credential c = r \<and> isActive c) creds \<noteq> None"
    by (auto simp: find_None_set)
  then obtain uc where f: "find (\<lambda>c. credential c = r \<and> isActive c) creds = Some uc"
    by blast
  from find_Some_set [OF f] have uc: "uc \<in> set creds" "credential uc = r" "isActive uc"
    by simp_all
  from assms have "inj_on credential (set (filter isActive creds))"
    by (simp add: distinct_map)
  moreover from uc c have "uc \<in> set (filter isActive creds)" "c \<in> set (filter isActive creds)"
    by simp_all
  ultimately have "uc = c"
    using uc(2) c(2) by (auto dest: inj_onD)
  with f ok show ?single
    by simp
qed

lemma verify_found:
  assumes "findUser st uid = Some u"
  shows "credentialsValid (verifyUserCredentials e st uid required) \<longleftrightarrow>
         (required = [] \<or> classifyRequired (now e) (credentials u) required = ([], []))"
  using assms by (auto simp: verifyUserCredentials_def split: prod.splits)

text \<open>
  C8, as the code has it. For a worker who has a user document and holds at most one active
  record of any credential, and at one clock reading, the bulk filter keeps exactly the
  shifts for which the single check answers valid; on both paths a record is usable when it
  is active and its expiration date, if any, is not before the clock.
\<close>

theorem C8_bulk_equals_single:
  "findUser st uid = Some u \<and> oneActiveRecordPerCredential u \<longrightarrow>
     filterShiftsByCredentials e st candidates uid =
       filter (\<lambda>s. credentialsValid (verifyUserCredentials e st uid (requiredCredentials s)))
         candidates"
proof
  assume a: "findUser st uid = Some u \<and> oneActiveRecordPerCredential u"
  then have u: "findUser st uid = Some u"
    and d: "distinct (map credential (filter isActive (credentials u)))"
    by (simp_all add: oneActiveRecordPerCredential_def)
  have eq: "(requiredCredentials s = [] \<or>
         list_all (\<lambda>i. List.member
            (map credential
               (filter (\<lambda>c. isActive c \<and>
                   (case expirationDate c of None \<Rightarrow> True | Some x \<Rightarrow> x \<ge> now e))
                  (credentials u))) i)
           (requiredCredentials s)) \<longleftrightarrow>
        credentialsValid (verifyUserCredentials e st uid (requiredCredentials s))" for s
    unfolding verify_found [OF u] classifyRequired_clean list_all_iff List.member_iff
      first_active_record [OF d]
    by (rule refl)
  show "filterShiftsByCredentials e st candidates uid =
       filter (\<lambda>s. credentialsValid (verifyUserCredentials e st uid (requiredCredentials s)))
         candidates"
    unfolding filterShiftsByCredentials_def u by (simp only: option.case Let_def eq)
qed

theorem C8_bulk_equals_single_witness:
  "findUser wardStore 7 = Some nurse \<and> oneActiveRecordPerCredential nurse \<and>
   filterShiftsByCredentials utcEnv wardStore
     [openShift 20 ''09:00'' ''17:00'' [100, 101], openShift 21 ''09:00'' ''17:00'' [102],
      openShift 22 ''09:00'' ''17:00'' [], openShift 23 ''09:00'' ''17:00'' [103]] 7 =
     [openShift 20 ''09:00'' ''17:00'' [100, 101], openShift 22 ''09:00'' ''17:00'' []] \<and>
   map (\<lambda>s. credentialsValid (verifyUserCredentials utcEnv wardStore 7 (requiredCredentials s)))
     [openShift 20 ''09:00'' ''17:00'' [100, 101], openShift 21 ''09:00'' ''17:00'' [102],
      openShift 22 ''09:00'' ''17:00'' [], openShift 23 ''09:00'' ''17:00'' [103]] =
     [True, False, True, False]"
proof -
  have u: "findUser wardStore 7 = Some nurse"
    by code_simp
  have d: "oneActiveRecordPerCredential nurse"
    by code_simp
  have v: "map (\<lambda>s. credentialsValid
                 (verifyUserCredentials utcEnv wardStore 7 (requiredCredentials s)))
     [openShift 20 ''09:00'' ''17:00'' [100, 101], openShift 21 ''09:00'' ''17:00'' [102],
      openShift 22 ''09:00'' ''17:00'' [], openShift 23 ''09:00'' ''17:00'' [103]] =
     [True, False, True, False]"
    by code_simp
  from C8_bulk_equals_single [of wardStore 7 nurse utcEnv
      "[openShift 20 ''09:00'' ''17:00'' [100, 101], openShift 21 ''09:00'' ''17:00'' [102],
        openShift 22 ''09:00'' ''17:00'' [], openShift 23 ''09:00'' ''17:00'' [103]]"] u d
  have "filterShiftsByCredentials utcEnv wardStore
     [openShift 20 ''09:00'' ''17:00'' [100, 101], openShift 21 ''09:00'' ''17:00'' [102],
      openShift 22 ''09:00'' ''17:00'' [], openShift 23 ''09:00'' ''17:00'' [103]] 7 =
     filter (\<lambda>s. credentialsValid
                 (verifyUserCredentials utcEnv wardStore 7 (requiredCredentials s)))
       [openShift 20 ''09:00'' ''17:00'' [100, 101], openShift 21 ''09:00'' ''17:00'' [102],
        openShift 22 ''09:00'' ''17:00'' [], openShift 23 ''09:00'' ''17:00'' [103]]"
    by blast
  with v have "filterShiftsByCredentials utcEnv wardStore
     [openShift 20 ''09:00'' ''17:00'' [100, 101], openShift 21 ''09:00'' ''17:00'' [102],
      openShift 22 ''09:00'' ''17:00'' [], openShift 23 ''09:00'' ''17:00'' [103]] 7 =
     [openShift 20 ''09:00'' ''17:00'' [100, 101], openShift 22 ''09:00'' ''17:00'' []]"
    by simp
  with u d v show ?thesis
    by blast
qed

text \<open>
  Worker 4 holds two active records of credential 100, the first expired and the second
  without expiration: the bulk filter keeps a shift that requires credential 100, while the
  single check, which judges the first active record, answers invalid. For the id 3, which
  has no user document, the single check answers valid on a shift without requirements,
  and the bulk filter keeps no shift.
\<close>

theorem C8_paths_differ_counterexample:
  "filterShiftsByCredentials utcEnv relicensedStore [openShift 20 ''09:00'' ''17:00'' [100]] 4 =
     [openShift 20 ''09:00'' ''17:00'' [100]] \<and>
   verifyUserCredentials utcEnv relicensedStore 4
       (requiredCredentials (openShift 20 ''09:00'' ''17:00'' [100])) =
     \<lparr>credentialsValid = False, missingCredentials = [],
      expiredCredentials = [(100, 1704067199999)]\<rparr> \<and>
   findUser relicensedStore 3 = None \<and>
   filterShiftsByCredentials utcEnv relicensedStore [openShift 22 ''09:00'' ''17:00'' []] 3 = [] \<and>
   credentialsValid (verifyUserCredentials utcEnv relicensedStore 3
       (requiredCredentials (openShift 22 ''09:00'' ''17:00'' []))) = True"
  by code_simp

section \<open>Filing a swap request: duplicates\<close>

text \<open>
  C7, as the code has it. Filing answers "You have already requested this shift" exactly
  when the shift exists, is open, was posted by someone else, the worker's credentials are
  valid, and a request of the same shift and worker is stored, whatever the status of that
  request; the database is then left as it was.
\<close>

theorem C7_duplicate_any_status:
  "(fst (createSwapRequest e st who b) =
      Reply 400 ''You have already requested this shift'' NoData) =
   (\<exists>s. findShift st (bodyShiftId b) = Some s \<and> status s = Open \<and> postedBy s \<noteq> actorId who \<and>
        credentialsValid
          (verifyUserCredentials e st (actorId who) (populatedCredentialIds st s)) \<and>
        find (\<lambda>r. requestShift r = bodyShiftId b \<and> requestedBy r = actorId who)
          (swapRequests st) \<noteq> None)"
proof (cases "findShift st (bodyShiftId b)")
  case None
  then show ?thesis
    by (simp add: createSwapRequest_def)
next
  case (Some s)
  have "find (\<lambda>r. requestShift r = bodyShiftId b \<and> requestedBy r = actorId who)
          (swapRequests st) = None \<Longrightarrow>
        \<not> list_ex (\<lambda>r. requestShift r = bodyShiftId b \<and> requestedBy r = actorId who)
            (swapRequests st)"
    by (simp add: find_None_set list_ex_iff)
  then show ?thesis
    using Some by (auto simp: createSwapRequest_def Let_def)
qed

theorem C7_duplicate_any_status_witness:
  "fst (createSwapRequest utcEnv
         (oneShiftStore\<lparr>swapRequests :=
            [\<lparr>requestId = 40, requestShift = 20, requestedBy = 7,
              requestStatus = RequestRejected, manager = Some 9, requestSwapType = Coverage,
              preferredReplacementShifts = [], reason = ''cover'',
              responseDeadline = 1705363200000\<rparr>]\<rparr>)
         nurseActor (requestBody 20)) =
     Reply 400 ''You have already requested this shift'' NoData"
proof -
  define st where "st = oneShiftStore\<lparr>swapRequests :=
            [\<lparr>requestId = 40, requestShift = 20, requestedBy = 7,
              requestStatus = RequestRejected, manager = Some 9, requestSwapType = Coverage,
              preferredReplacementShifts = [], reason = ''cover'',
              responseDeadline = 1705363200000\<rparr>]\<rparr>"
  have f: "findShift st (bodyShiftId (requestBody 20)) = Some (openShift 20 ''09:00'' ''17:00'' [100])"
    unfolding st_def by code_simp
  have p: "status (openShift 20 ''09:00'' ''17:00'' [100]) = Open \<and>
           postedBy (openShift 20 ''09:00'' ''17:00'' [100]) \<noteq> actorId nurseActor \<and>
           credentialsValid (verifyUserCredentials utcEnv st (actorId nurseActor)
             (populatedCredentialIds st (openShift 20 ''09:00'' ''17:00'' [100]))) \<and>
           find (\<lambda>r. requestShift r = bodyShiftId (requestBody 20) \<and>
                      requestedBy r = actorId nurseActor) (swapRequests st) \<noteq> None"
    unfolding st_def by code_simp
  from f p C7_duplicate_any_status [of utcEnv st nurseActor "requestBody 20"]
  show ?thesis
    unfolding st_def by blast
qed

text \<open>
  Nurse 7 files for the open shift 20, the manager rejects, the shift is open again, and
  the nurse's second filing is refused as a duplicate although no pending request exists.
\<close>

theorem C7_refile_after_rejection_counterexample:
  "(case createSwapRequest utcEnv oneShiftStore nurseActor (requestBody 20) of
      (r1, s1) \<Rightarrow>
        (case rejectRequest utcEnv s1 managerActor 50 of
           (r2, s2) \<Rightarrow>
             (replyCode r1, replyCode r2, map requestStatus (swapRequests s2),
              map status (shifts s2),
              fst (createSwapRequest utcEnv s2 nurseActor (requestBody 20))))) =
   (Some 201, Some 200, [RequestRejected], [Open],
    Reply 400 ''You have already requested this shift'' NoData)"
  by code_simp

section \<open>Direct assignment and credentials\<close>

lemma validateShiftOverlap_users:
  "validateShiftOverlap (st\<lparr>users := us\<rparr>) sd x = validateShiftOverlap st sd x"
  unfolding validateShiftOverlap_def checkUserShiftOverlap_def checkDepartmentShiftOverlap_def
  by (simp cong: option.case_cong)

lemma findShift_users: "findShift (st\<lparr>users := us\<rparr>) i = findShift st i"
  by (simp add: findShift_def)

text \<open>
  C10. Newcomer 6 holds no credential, shift 20 requires credential 100: the newcomer's
  swap request is refused with 403, while creating a shift that requires credential 100
  with the newcomer assigned succeeds and is stored as approved, and editing shift 20 to
  assign the newcomer succeeds too. In general neither the reply of \<open>createShift\<close> nor that
  of \<open>updateShift\<close> depends on the users and their credential records.
\<close>

theorem C10_assignment_without_credential_check:
  "fst (createShift e (st\<lparr>users := us\<rparr>) who b) = fst (createShift e st who b) \<and>
   fst (updateShift e (st\<lparr>users := us\<rparr>) who sid ub) = fst (updateShift e st who sid ub) \<and>
   credentialsValid (verifyUserCredentials utcEnv oneShiftStore 6 [100]) = False \<and>
   replyCode (fst (createSwapRequest utcEnv oneShiftStore newcomerActor (requestBody 20))) =
     Some 403 \<and>
   (case createShift utcEnv oneShiftStore managerActor
           (shiftBody ''18:00'' ''22:00'' [100] (Some 6)) of
      (r, s') \<Rightarrow> (replyCode r, map shiftSummary (shifts s'))) =
     (Some 201, [(20, Open, None, ''09:00'', ''17:00''),
                 (50, Approved, Some 6, ''18:00'', ''22:00'')]) \<and>
   (case updateShift utcEnv oneShiftStore managerActor 20 (noUpdate\<lparr>updAssignedTo := Some 6\<rparr>) of
      (r, s') \<Rightarrow> (replyCode r, map shiftSummary (shifts s'))) =
     (Some 200, [(20, Open, Some 6, ''09:00'', ''17:00'')])"
proof -
  have c: "fst (createShift e (st\<lparr>users := us\<rparr>) who b) = fst (createShift e st who b)"
    unfolding createShift_def validateShiftOverlap_users by (simp add: Let_def)
  have u: "fst (updateShift e (st\<lparr>users := us\<rparr>) who sid ub) = fst (updateShift e st who sid ub)"
    unfolding updateShift_def findShift_users validateShiftOverlap_users
    by (simp add: Let_def split: option.splits)
  have k: "credentialsValid (verifyUserCredentials utcEnv oneShiftStore 6 [100]) = False \<and>
   replyCode (fst (createSwapRequest utcEnv oneShiftStore newcomerActor (requestBody 20))) =
     Some 403 \<and>
   (case createShift utcEnv oneShiftStore managerActor
           (shiftBody ''18:00'' ''22:00'' [100] (Some 6)) of
      (r, s') \<Rightarrow> (replyCode r, map shiftSummary (shifts s'))) =
     (Some 201, [(20, Open, None, ''09:00'', ''17:00''),
                 (50, Approved, Some 6, ''18:00'', ''22:00'')]) \<and>
   (case updateShift utcEnv oneShiftStore managerActor 20 (noUpdate\<lparr>updAssignedTo := Some 6\<rparr>) of
      (r, s') \<Rightarrow> (replyCode r, map shiftSummary (shifts s'))) =
     (Some 200, [(20, Open, Some 6, ''09:00'', ''17:00'')])"
    by code_simp
  from c u k show ?thesis by blast
qed

section \<open>Approval and the overlap validator\<close>

text \<open>
  C1: what the code does. The manager creates a shift from 09:00 to 17:00 assigned to
  nurse 7 (stored as shift 50, approved); user 8 posts an open shift from 10:00 to 12:00 on
  the same date (shift 51); the nurse files a request for it (request 52) and the manager
  approves. The approval answers 200 and leaves both shifts approved and assigned to
  nurse 7, although the overlap validator, had it been run for the committed assignment
  before or after, reports the worker overlap with shift 50, and although creating the
  second shift directly with the nurse assigned is refused with that error.
\<close>

theorem C1_approval_double_books:
  "(case createShift utcEnv wardStore managerActor (shiftBody ''09:00'' ''17:00'' [] (Some 7)) of
      (r1, s1) \<Rightarrow>
        (case createShift utcEnv s1 posterActor (shiftBody ''10:00'' ''12:00'' [] None) of
           (r2, s2) \<Rightarrow>
             (case createSwapRequest utcEnv s2 nurseActor (requestBody 51) of
                (r3, s3) \<Rightarrow>
                  (case approveRequest utcEnv s3 managerActor 52 of
                     (r4, s4) \<Rightarrow>
                       (map replyCode [r1, r2, r3, r4],
                        map shiftSummary (shifts s4),
                        errors (validateShiftOverlap s3
                          \<lparr>dataAssignedTo = Some 7, dataDepartment = ''ICU'',
                           dataDate = 1705449600000, dataStartTime = ''10:00'',
                           dataEndTime = ''12:00''\<rparr> (Some 51)),
                        errors (validateShiftOverlap s4
                          \<lparr>dataAssignedTo = Some 7, dataDepartment = ''ICU'',
                           dataDate = 1705449600000, dataStartTime = ''10:00'',
                           dataEndTime = ''12:00''\<rparr> (Some 51)),
                        fst (createShift utcEnv s1 managerActor
                               (shiftBody ''10:00'' ''12:00'' [] (Some 7)))))))) =
   ([Some 201, Some 201, Some 201, Some 200],
    [(50, Approved, Some 7, ''09:00'', ''17:00''), (51, Approved, Some 7, ''10:00'', ''12:00'')],
    [UserOverlap [50]],
    [UserOverlap [50]],
    Reply 400 ''Shift overlap validation failed''
      (OverlapFailure [UserOverlap [50]] [DepartmentOverlap [50]]))"
  by code_simp

section \<open>The shift invariant under direct edits\<close>

text \<open>
  C2: what the code does. Editing the open shift 20 with only \<^verbatim>\<open>assignedTo\<close> in the body
  answers 200 and stores the shift as open and assigned to nurse 7, which breaks both halves
  of the invariant. And when a manager's edit has assigned and approved a shift whose request
  is still pending, rejecting that request reopens the shift and keeps the assignment.
\<close>

theorem C2_update_breaks_invariant:
  "(case updateShift utcEnv oneShiftStore managerActor 20 (noUpdate\<lparr>updAssignedTo := Some 7\<rparr>) of
      (r, s') \<Rightarrow>
        (replyCode r, map shiftInvariant (shifts oneShiftStore), map shiftSummary (shifts s'),
         map shiftInvariant (shifts s'))) =
     (Some 200, [True], [(20, Open, Some 7, ''09:00'', ''17:00'')], [False]) \<and>
   (case createSwapRequest utcEnv oneShiftStore nurseActor (requestBody 20) of
      (r1, s1) \<Rightarrow>
        (case updateShift utcEnv s1 managerActor 20
                (noUpdate\<lparr>updAssignedTo := Some 7, updStatus := Some Approved\<rparr>) of
           (r2, s2) \<Rightarrow>
             (case rejectRequest utcEnv s2 managerActor 50 of
                (r3, s3) \<Rightarrow>
                  (map replyCode [r1, r2, r3], map shiftInvariant (shifts s2),
                   map shiftSummary (shifts s3), map shiftInvariant (shifts s3))))) =
     ([Some 201, Some 200, Some 200], [True], [(20, Open, Some 7, ''09:00'', ''17:00'')], [False])"
  by code_simp

text \<open>
  Creating a shift, filing a request and approving a request keep the invariant on every
  stored shift.
\<close>

lemma saveShift_invariant:
  "list_all shiftInvariant (shifts st) \<Longrightarrow> shiftInvariant s \<Longrightarrow>
   list_all shiftInvariant (shifts (saveShift st s))"
  by (auto simp: saveShift_def list_all_iff)

lemma findShift_invariant:
  "list_all shiftInvariant (shifts st) \<Longrightarrow> findShift st i = Some s \<Longrightarrow> shiftInvariant s"
  using find_Some_set [of "\<lambda>s. shiftId s = i" "shifts st" s]
  by (auto simp: findShift_def list_all_iff)

lemma createShift_invariant:
  assumes "list_all shiftInvariant (shifts st)"
  shows "list_all shiftInvariant (shifts (snd (createShift e st who b)))"
  using assms
  by (auto simp: createShift_def Let_def recordHistory_def shiftInvariant_def
      split: option.splits)

lemma createSwapRequest_invariant:
  assumes "list_all shiftInvariant (shifts st)"
  shows "list_all shiftInvariant (shifts (snd (createSwapRequest e st who b)))"
proof (cases "findShift st (bodyShiftId b)")
  case None
  with assms show ?thesis by (simp add: createSwapRequest_def)
next
  case (Some s)
  from findShift_invariant [OF assms Some]
  have "status s = Open \<Longrightarrow> shiftInvariant (s\<lparr>status := Requested\<rparr>)"
    by (auto simp: shiftInvariant_def)
  with assms Some show ?thesis
    by (auto simp: createSwapRequest_def Let_def saveShift_def list_all_iff)
qed

lemma approveRequest_invariant:
  assumes "list_all shiftInvariant (shifts st)"
  shows "list_all shiftInvariant (shifts (snd (approveRequest e st who rid)))"
proof -
  have a: "list_all shiftInvariant
             (shifts (saveShift (saveRequest st r) (s\<lparr>assignedTo := Some u, status := Approved\<rparr>)))"
    for r s u
    using assms by (auto simp: saveShift_def saveRequest_def list_all_iff shiftInvariant_def)
  have b: "list_all shiftInvariant (shifts (saveRequest st r))" for r
    using assms by (simp add: saveRequest_def)
  show ?thesis
    using assms a b
    by (auto simp: approveRequest_def Let_def recordWorkHours_def recordHistory_def
        split: option.splits)
qed

section \<open>Failing writes\<close>

text \<open>
  C3, as the code has it. Filing, approving and rejecting leave the database untouched when
  they refuse (a reply other than success) and when their first write fails. No handler
  undoes a write: when a later write fails, or the ledger entry is refused by its schema, the
  handler ends in its error path and the database is the one that the writes before the
  failing one produced. For an approval
  these are, in order, the request marked approved, the shift approved and assigned, the
  ledger entry and the history record; for a rejection the request marked rejected, the
  shift reopened and the history record; for a filing the new pending request. So when the
  shift write fails during an approval the request stays marked approved beside an
  unchanged shift, and when the ledger write fails the request stays approved and the shift
  stays approved and assigned, with no ledger entry.
\<close>

theorem C3_no_rollback:
  "(replyCode (fst (approveRequest e st who rid)) \<noteq> Some 200 \<and>
    fst (approveRequest e st who rid) \<noteq> NextError \<longrightarrow> snd (approveRequest e st who rid) = st) \<and>
   (replyCode (fst (rejectRequest e st who rid)) \<noteq> Some 200 \<and>
    fst (rejectRequest e st who rid) \<noteq> NextError \<longrightarrow> snd (rejectRequest e st who rid) = st) \<and>
   (replyCode (fst (createSwapRequest e st who b)) \<noteq> Some 201 \<and>
    fst (createSwapRequest e st who b) \<noteq> NextError \<longrightarrow> snd (createSwapRequest e st who b) = st) \<and>
   (failingWrite e = Some 1 \<longrightarrow>
      snd (approveRequest e st who rid) = st \<and> snd (rejectRequest e st who rid) = st \<and>
      snd (createSwapRequest e st who b) = st) \<and>
   (findRequest st rid = Some r \<and> requestStatus r = Pending \<and>
    findUser st (requestedBy r) = Some u \<and> findShift st (requestShift r) = Some s \<longrightarrow>
      (let st1 = saveRequest st
                   (r\<lparr>requestStatus := RequestApproved, manager := Some (actorId who)\<rparr>);
           st2 = saveShift st1 (s\<lparr>assignedTo := Some (userId u), status := Approved\<rparr>)
       in (failingWrite e = Some 2 \<longrightarrow> approveRequest e st who rid = (NextError, st1)) \<and>
          (failingWrite e = Some 3 \<longrightarrow> approveRequest e st who rid = (NextError, st2)) \<and>
          (recordWorkHours e st2 (userId u) (shiftId s) (date s) (startTime s) (endTime s) =
             Some st3 \<longrightarrow>
             (failingWrite e = Some 4 \<longrightarrow> approveRequest e st who rid = (NextError, st3)) \<and>
             (failingWrite e = Some 5 \<longrightarrow>
                approveRequest e st who rid =
                  (NextError,
                   recordHistory st3 (shiftId s) ApprovedAction (actorId who)
                     (AssignmentSnapshot (assignedTo s) Requested)
                     (AssignmentSnapshot (Some (userId u)) Approved)
                     ''Shift swap request approved by manager''))) \<and>
          (recordWorkHours e st2 (userId u) (shiftId s) (date s) (startTime s) (endTime s) =
             None \<and> failingWrite e \<noteq> Some 1 \<and> failingWrite e \<noteq> Some 2 \<longrightarrow>
             approveRequest e st who rid = (NextError, st2)))) \<and>
   (findRequest st rid = Some r \<and> requestStatus r = Pending \<and>
    findShift st (requestShift r) = Some s \<longrightarrow>
      (let st1 = saveRequest st
                   (r\<lparr>requestStatus := RequestRejected, manager := Some (actorId who)\<rparr>);
           st2 = saveShift st1 (s\<lparr>status := Open\<rparr>)
       in (failingWrite e = Some 2 \<longrightarrow> rejectRequest e st who rid = (NextError, st1)) \<and>
          (failingWrite e = Some 3 \<longrightarrow> rejectRequest e st who rid = (NextError, st2)) \<and>
          (failingWrite e = Some 4 \<longrightarrow>
             rejectRequest e st who rid =
               (NextError,
                recordHistory st2 (shiftId s) RejectedAction (actorId who)
                  (StatusSnapshot (status s)) (StatusSnapshot Open)
                  ''Shift swap request rejected by manager'')))) \<and>
   (findShift st (bodyShiftId b) = Some s' \<and> status s' = Open \<and> postedBy s' \<noteq> actorId who \<and>
    credentialsValid
      (verifyUserCredentials e st (actorId who) (populatedCredentialIds st s')) \<and>
    find (\<lambda>x. requestShift x = bodyShiftId b \<and> requestedBy x = actorId who)
      (swapRequests st) = None \<and>
    failingWrite e = Some 2 \<longrightarrow>
      createSwapRequest e st who b =
        (NextError,
         st\<lparr>swapRequests := swapRequests st @
             [\<lparr>requestId = nextId st, requestShift = bodyShiftId b,
               requestedBy = actorId who, requestStatus = Pending, manager = None,
               requestSwapType = bodySwapType b,
               preferredReplacementShifts =
                 (case bodyPreferredReplacementShifts b of Some ps \<Rightarrow> ps | None \<Rightarrow> []),
               reason = bodyReason b, responseDeadline = bodyResponseDeadline b\<rparr>],
           nextId := nextId st + 1\<rparr>))"
proof -
  have a: "snd (approveRequest e st who rid) = st"
    if "replyCode (fst (approveRequest e st who rid)) \<noteq> Some 200"
      "fst (approveRequest e st who rid) \<noteq> NextError"
    using that
    by (auto simp: approveRequest_def Let_def replyCode_def split: option.splits if_splits)
  have rj: "snd (rejectRequest e st who rid) = st"
    if "replyCode (fst (rejectRequest e st who rid)) \<noteq> Some 200"
      "fst (rejectRequest e st who rid) \<noteq> NextError"
    using that
    by (auto simp: rejectRequest_def Let_def replyCode_def split: option.splits if_splits)
  have f: "snd (createSwapRequest e st who b) = st"
    if "replyCode (fst (createSwapRequest e st who b)) \<noteq> Some 201"
      "fst (createSwapRequest e st who b) \<noteq> NextError"
    using that
    by (auto simp: createSwapRequest_def Let_def replyCode_def split: option.splits if_splits)
  have w1: "snd (approveRequest e st who rid) = st \<and> snd (rejectRequest e st who rid) = st \<and>
      snd (createSwapRequest e st who b) = st"
    if "failingWrite e = Some 1"
    using that
    by (auto simp: approveRequest_def rejectRequest_def createSwapRequest_def Let_def
        split: option.splits)
  have ap: "let st1 = saveRequest st
                   (r\<lparr>requestStatus := RequestApproved, manager := Some (actorId who)\<rparr>);
           st2 = saveShift st1 (s\<lparr>assignedTo := Some (userId u), status := Approved\<rparr>)
       in (failingWrite e = Some 2 \<longrightarrow> approveRequest e st who rid = (NextError, st1)) \<and>
          (failingWrite e = Some 3 \<longrightarrow> approveRequest e st who rid = (NextError, st2)) \<and>
          (recordWorkHours e st2 (userId u) (shiftId s) (date s) (startTime s) (endTime s) =
             Some st3 \<longrightarrow>
             (failingWrite e = Some 4 \<longrightarrow> approveRequest e st who rid = (NextError, st3)) \<and>
             (failingWrite e = Some 5 \<longrightarrow>
                approveRequest e st who rid =
                  (NextError,
                   recordHistory st3 (shiftId s) ApprovedAction (actorId who)
                     (AssignmentSnapshot (assignedTo s) Requested)
                     (AssignmentSnapshot (Some (userId u)) Approved)
                     ''Shift swap request approved by manager''))) \<and>
          (recordWorkHours e st2 (userId u) (shiftId s) (date s) (startTime s) (endTime s) =
             None \<and> failingWrite e \<noteq> Some 1 \<and> failingWrite e \<noteq> Some 2 \<longrightarrow>
             approveRequest e st who rid = (NextError, st2))"
    if "findRequest st rid = Some r \<and> requestStatus r = Pending \<and>
        findUser st (requestedBy r) = Some u \<and> findShift st (requestShift r) = Some s"
    using that by (simp add: approveRequest_def Let_def)
  have re: "let st1 = saveRequest st
                   (r\<lparr>requestStatus := RequestRejected, manager := Some (actorId who)\<rparr>);
           st2 = saveShift st1 (s\<lparr>status := Open\<rparr>)
       in (failingWrite e = Some 2 \<longrightarrow> rejectRequest e st who rid = (NextError, st1)) \<and>
          (failingWrite e = Some 3 \<longrightarrow> rejectRequest e st who rid = (NextError, st2)) \<and>
          (failingWrite e = Some 4 \<longrightarrow>
             rejectRequest e st who rid =
               (NextError,
                recordHistory st2 (shiftId s) RejectedAction (actorId who)
                  (StatusSnapshot (status s)) (StatusSnapshot Open)
                  ''Shift swap request rejected by manager''))"
    if "findRequest st rid = Some r \<and> requestStatus r = Pending \<and>
        findShift st (requestShift r) = Some s"
    using that by (simp add: rejectRequest_def Let_def split: option.splits)
  have fi: "createSwapRequest e st who b =
        (NextError,
         st\<lparr>swapRequests := swapRequests st @
             [\<lparr>requestId = nextId st, requestShift = bodyShiftId b,
               requestedBy = actorId who, requestStatus = Pending, manager = None,
               requestSwapType = bodySwapType b,
               preferredReplacementShifts =
                 (case bodyPreferredReplacementShifts b of Some ps \<Rightarrow> ps | None \<Rightarrow> []),
               reason = bodyReason b, responseDeadline = bodyResponseDeadline b\<rparr>],
           nextId := nextId st + 1\<rparr>)"
    if h: "findShift st (bodyShiftId b) = Some s' \<and> status s' = Open \<and>
        postedBy s' \<noteq> actorId who \<and>
        credentialsValid
          (verifyUserCredentials e st (actorId who) (populatedCredentialIds st s')) \<and>
        find (\<lambda>x. requestShift x = bodyShiftId b \<and> requestedBy x = actorId who)
          (swapRequests st) = None \<and>
        failingWrite e = Some 2"
  proof -
    from h have "\<not> list_ex (\<lambda>x. requestShift x = bodyShiftId b \<and> requestedBy x = actorId who)
            (swapRequests st)"
      by (simp add: find_None_set list_ex_iff)
    with h show ?thesis
      by (simp add: createSwapRequest_def Let_def)
  qed
  from a rj f w1 ap re fi show ?thesis
    by blast
qed

lemma filing_gives_pendingStore:
  "createSwapRequest utcEnv oneShiftStore nurseActor (requestBody 20) =
     (Reply 201 ''Shift swap request created successfully'' (RequestResult pendingRequest None),
      pendingStore)"
  by code_simp

theorem C3_no_rollback_witness:
  "findRequest pendingStore 50 = Some pendingRequest \<and> requestStatus pendingRequest = Pending \<and>
   findUser pendingStore (requestedBy pendingRequest) = Some nurse \<and>
   findShift pendingStore (requestShift pendingRequest) =
     Some ((openShift 20 ''09:00'' ''17:00'' [100])\<lparr>status := Requested\<rparr>) \<and>
   approveRequest (utcEnv\<lparr>failingWrite := Some 2\<rparr>) pendingStore managerActor 50 =
     (NextError,
      saveRequest pendingStore
        (pendingRequest\<lparr>requestStatus := RequestApproved, manager := Some (actorId managerActor)\<rparr>)) \<and>
   rejectRequest (utcEnv\<lparr>failingWrite := Some 3\<rparr>) pendingStore managerActor 50 =
     (NextError,
      saveShift
        (saveRequest pendingStore
           (pendingRequest\<lparr>requestStatus := RequestRejected,
              manager := Some (actorId managerActor)\<rparr>))
        ((openShift 20 ''09:00'' ''17:00'' [100])\<lparr>status := Requested, status := Open\<rparr>)) \<and>
   snd (approveRequest (utcEnv\<lparr>failingWrite := Some 1\<rparr>) pendingStore managerActor 50) =
     pendingStore"
proof -
  have pre: "findRequest pendingStore 50 = Some pendingRequest \<and>
      requestStatus pendingRequest = Pending \<and>
      findUser pendingStore (requestedBy pendingRequest) = Some nurse \<and>
      findShift pendingStore (requestShift pendingRequest) =
        Some ((openShift 20 ''09:00'' ''17:00'' [100])\<lparr>status := Requested\<rparr>)"
    by code_simp
  have w3: "failingWrite (utcEnv\<lparr>failingWrite := Some 3\<rparr>) = Some 3"
    by simp
  have w2: "failingWrite (utcEnv\<lparr>failingWrite := Some 2\<rparr>) = Some 2"
    by simp
  have w1: "failingWrite (utcEnv\<lparr>failingWrite := Some 1\<rparr>) = Some 1"
    by simp
  from C3_no_rollback [where e = "utcEnv\<lparr>failingWrite := Some 2\<rparr>" and st = pendingStore
      and who = managerActor and rid = 50 and r = pendingRequest and u = nurse
      and s = "(openShift 20 ''09:00'' ''17:00'' [100])\<lparr>status := Requested\<rparr>",
      unfolded Let_def] pre w2
  have a: "approveRequest (utcEnv\<lparr>failingWrite := Some 2\<rparr>) pendingStore managerActor 50 =
     (NextError,
      saveRequest pendingStore
        (pendingRequest\<lparr>requestStatus := RequestApproved, manager := Some (actorId managerActor)\<rparr>))"
    by blast
  from C3_no_rollback [where e = "utcEnv\<lparr>failingWrite := Some 3\<rparr>" and st = pendingStore
      and who = managerActor and rid = 50 and r = pendingRequest
      and s = "(openShift 20 ''09:00'' ''17:00'' [100])\<lparr>status := Requested\<rparr>",
      unfolded Let_def] pre w3
  have c: "rejectRequest (utcEnv\<lparr>failingWrite := Some 3\<rparr>) pendingStore managerActor 50 =
     (NextError,
      saveShift
        (saveRequest pendingStore
           (pendingRequest\<lparr>requestStatus := RequestRejected,
              manager := Some (actorId managerActor)\<rparr>))
        ((openShift 20 ''09:00'' ''17:00'' [100])\<lparr>status := Requested, status := Open\<rparr>))"
    by blast
  from C3_no_rollback [where e = "utcEnv\<lparr>failingWrite := Some 1\<rparr>" and st = pendingStore
      and who = managerActor and rid = 50] w1
  have b: "snd (approveRequest (utcEnv\<lparr>failingWrite := Some 1\<rparr>) pendingStore managerActor 50) =
     pendingStore"
    by blast
  from pre a b c show ?thesis
    by blast
qed

text \<open>
  After nurse 7 has filed for shift 20: when the ledger write fails during the approval, the
  handler ends in its error path with the request marked approved and the shift approved
  and assigned, and no ledger entry; when the shift write fails during filing, the new
  pending request stays although the shift is still open; when the shift write fails during
  a rejection, the request stays rejected although the shift is still marked requested.
\<close>

theorem C3_partial_effects_counterexample:
  "(case approveRequest (utcEnv\<lparr>failingWrite := Some 3\<rparr>) pendingStore managerActor 50 of
      (r, s') \<Rightarrow>
        (r, map requestStatus (swapRequests s'), map shiftSummary (shifts s'),
         workHoursLedger s')) =
     (NextError, [RequestApproved], [(20, Approved, Some 7, ''09:00'', ''17:00'')], []) \<and>
   (case createSwapRequest (utcEnv\<lparr>failingWrite := Some 2\<rparr>) oneShiftStore nurseActor
           (requestBody 20) of
      (r, s') \<Rightarrow> (r, map requestStatus (swapRequests s'), map shiftSummary (shifts s'))) =
     (NextError, [Pending], [(20, Open, None, ''09:00'', ''17:00'')]) \<and>
   (case rejectRequest (utcEnv\<lparr>failingWrite := Some 2\<rparr>) pendingStore managerActor 50 of
      (r, s') \<Rightarrow> (r, map requestStatus (swapRequests s'), map shiftSummary (shifts s'))) =
     (NextError, [RequestRejected], [(20, Requested, None, ''09:00'', ''17:00'')]) \<and>
   fst (createSwapRequest utcEnv oneShiftStore nurseActor (requestBody 20)) =
     Reply 201 ''Shift swap request created successfully'' (RequestResult pendingRequest None) \<and>
   snd (createSwapRequest utcEnv oneShiftStore nurseActor (requestBody 20)) = pendingStore"
  by code_simp

end
